theory Spec2Isabelle
  imports
    Main
    "HOL-Library.Product_Lexorder"
    "HOL-Library.Char_ord"
    "HOL-Library.List_Lexorder"
    "HOL-Library.Log_Nat"
begin

section \<open>Track-Save: the ledger store and its analytics\<close>

text \<open>
  The server of the repository is \<^verbatim>\<open>src/server/routes.ts\<close>: the Express routes and, in the
  same file, the class \<^verbatim>\<open>DatabaseStorage\<close>, which talks to PostgreSQL through drizzle-orm.
  The tables are declared in \<^verbatim>\<open>src/shared/schema.ts\<close>. This theory embeds the storage
  methods and the route \<^verbatim>\<open>POST /api/transactions\<close> as functions over an explicit store.

  What the database engine and the JavaScript runtime do is written out where a method
  relies on it:
  \<^item> a table is the list of its rows in insertion order;
  \<^item> a \<^verbatim>\<open>decimal(10, 2)\<close> amount is an integer number of hundredths, so sums are exact;
  \<^item> a text parameter compared with a \<^verbatim>\<open>date\<close> or enum column, or written into a
    \<^verbatim>\<open>date\<close> or \<^verbatim>\<open>decimal\<close> column, is read by the column type's input routine, and the
    statement fails when the routine rejects the text;
  \<^item> a JavaScript \<^verbatim>\<open>number\<close> is an IEEE 754 binary64 value, and every arithmetic
    operation rounds to nearest, ties to even;
  \<^item> the clock and the generated row id are arguments (\<open>now\<close>, \<open>new_id\<close>).
\<close>

subsection \<open>Calendar dates and their text\<close>

text \<open>A date is (year, month, day). Dates compare as PostgreSQL compares them: by year,
  then month, then day, which is the lexicographic order of the triple.\<close>

type_synonym date = "int \<times> int \<times> int"

definition leap_year :: "int \<Rightarrow> bool" where
  "leap_year y =
     (if y mod 400 = 0 then True else if y mod 100 = 0 then False else y mod 4 = 0)"

definition days_in_month :: "int \<Rightarrow> int \<Rightarrow> int" where
  "days_in_month y m =
     (if m = 4 then 30 else if m = 6 then 30 else if m = 9 then 30 else if m = 11 then 30
      else if m = 2 then (if leap_year y then 29 else 28)
      else 31)"

definition valid_date :: "date \<Rightarrow> bool" where
  "valid_date dt =
     (case dt of (y, m, d) \<Rightarrow>
        1 \<le> y \<and> 1 \<le> m \<and> m \<le> 12 \<and> 1 \<le> d \<and> d \<le> days_in_month y m)"

definition digit_of :: "char \<Rightarrow> int option" where
  "digit_of c =
     (if CHR ''0'' \<le> c \<and> c \<le> CHR ''9'' then Some (of_char c - 48) else None)"

fun digits_in :: "int \<Rightarrow> string \<Rightarrow> int option" where
  "digits_in acc [] = Some acc"
| "digits_in acc (c # cs) =
     (case digit_of c of None \<Rightarrow> None | Some k \<Rightarrow> digits_in (10 * acc + k) cs)"

definition digit_char :: "int \<Rightarrow> char" where
  "digit_char k = char_of (48 + k)"

text \<open>\<open>pad w n\<close>: the last \<open>w\<close> decimal digits of \<open>n\<close>, zero-padded.\<close>

fun pad :: "nat \<Rightarrow> int \<Rightarrow> string" where
  "pad 0 n = []"
| "pad (Suc w) n = pad w (n div 10) @ [digit_char (n mod 10)]"

text \<open>
  PostgreSQL's input routine for \<^verbatim>\<open>date\<close>, on the ISO 8601 form \<^verbatim>\<open>YYYY-MM-DD\<close> that the
  application writes (\<^verbatim>\<open>toISOString().slice(0, 10)\<close>, the browser's date field). A day the
  month does not have is rejected (\<^verbatim>\<open>date/time field value out of range\<close>). Other
  spellings of a date are not modelled: they read as rejected here.
\<close>

definition date_in :: "string \<Rightarrow> date option" where
  "date_in s =
     (if length s = 10 \<and> s ! 4 = CHR ''-'' \<and> s ! 7 = CHR ''-'' then
        (case (digits_in 0 (take 4 s), digits_in 0 (take 2 (drop 5 s)), digits_in 0 (drop 8 s)) of
           (Some y, Some m, Some d) \<Rightarrow>
             (if valid_date (y, m, d) then Some (y, m, d) else None)
         | _ \<Rightarrow> None)
      else None)"

text \<open>
  \<^verbatim>\<open>Date.prototype.toISOString()\<close> up to the day: four digits for the years 0 to 9999,
  a sign and six digits for any other year.
\<close>

definition toISOString :: "date \<Rightarrow> string" where
  "toISOString dt =
     (case dt of (y, m, d) \<Rightarrow>
        (if 0 \<le> y \<and> y \<le> 9999 then pad 4 y
         else (if 0 \<le> y then ''+'' else ''-'') @ pad 6 \<bar>y\<bar>)
        @ ''-'' @ pad 2 m @ ''-'' @ pad 2 d)"

text \<open>The decimal digits of a number, without padding.\<close>

fun decimal :: "nat \<Rightarrow> string" where
  "decimal n =
     (if n < 10 then [digit_char (int n)] else decimal (n div 10) @ [digit_char (int (n mod 10))])"

text \<open>PostgreSQL's \<^verbatim>\<open>to_char(date, 'YYYY-MM')\<close>: the year in at least four digits.\<close>

definition to_char_YYYY_MM :: "date \<Rightarrow> string" where
  "to_char_YYYY_MM dt =
     (case dt of (y, m, d) \<Rightarrow>
        (if y \<le> 9999 then pad 4 y else decimal (nat y)) @ ''-'' @ pad 2 m)"

subsection \<open>JavaScript numbers\<close>

text \<open>
  A \<^verbatim>\<open>number\<close> is a binary64 value: a rational with a 53 bit significand, an infinity or
  NaN. The sign of zero is not modelled (\<open>Fin 0\<close> is both zeros).
\<close>

datatype number = Fin rat | PosInfinity | NegInfinity | NaN

definition pow2 :: "int \<Rightarrow> rat" where
  "pow2 e = (if 0 \<le> e then 2 ^ nat e else 1 / 2 ^ nat (- e))"

definition round_ties_even :: "rat \<Rightarrow> int" where
  "round_ties_even q =
     (let f = \<lfloor>q\<rfloor>; r = q - of_int f
      in if r < 1 / 2 then f else if 1 / 2 < r then f + 1 else if even f then f else f + 1)"

text \<open>For \<open>0 < q\<close>: the exponent \<open>k\<close> with \<open>2\<^sup>k \<le> q < 2\<^sup>k\<^sup>+\<^sup>1\<close>.\<close>

definition floor_log2 :: "rat \<Rightarrow> int" where
  "floor_log2 q = (if 1 \<le> q then bitlen \<lfloor>q\<rfloor> - 1 else - bitlen (\<lceil>1 / q\<rceil> - 1))"

text \<open>
  Rounding a rational to binary64, to nearest and ties to even: 53 significant bits for a
  normal value, multiples of \<open>2\<^sup>-\<^sup>1\<^sup>0\<^sup>7\<^sup>4\<close> below \<open>2\<^sup>-\<^sup>1\<^sup>0\<^sup>2\<^sup>2\<close>, an infinity from
  \<open>2\<^sup>1\<^sup>0\<^sup>2\<^sup>4\<close> on.
\<close>

definition binary64 :: "rat \<Rightarrow> number" where
  "binary64 q =
     (if q = 0 then Fin 0
      else
        (let e = max (floor_log2 \<bar>q\<bar> - 52) (- 1074);
             r = of_int (round_ties_even (\<bar>q\<bar> / pow2 e)) * pow2 e
         in if 2 ^ 1024 \<le> r then (if 0 < q then PosInfinity else NegInfinity)
            else Fin (if 0 < q then r else - r)))"

text \<open>
  \<^verbatim>\<open>a - b\<close>, \<^verbatim>\<open>a / b\<close>, \<^verbatim>\<open>a * b\<close> and \<^verbatim>\<open>a > b\<close> on numbers. A division by zero is a value,
  never an exception: an infinity, or NaN for \<^verbatim>\<open>0 / 0\<close> (the divisor read as \<open>+0\<close>).
\<close>

fun js_minus :: "number \<Rightarrow> number \<Rightarrow> number" where
  "js_minus NaN b = NaN"
| "js_minus a NaN = NaN"
| "js_minus (Fin x) (Fin y) = binary64 (x - y)"
| "js_minus (Fin x) PosInfinity = NegInfinity"
| "js_minus (Fin x) NegInfinity = PosInfinity"
| "js_minus PosInfinity PosInfinity = NaN"
| "js_minus PosInfinity b = PosInfinity"
| "js_minus NegInfinity NegInfinity = NaN"
| "js_minus NegInfinity b = NegInfinity"

definition sign_of :: "number \<Rightarrow> int" where
  "sign_of a =
     (case a of Fin x \<Rightarrow> (if x < 0 then - 1 else if x = 0 then 0 else 1)
      | PosInfinity \<Rightarrow> 1 | NegInfinity \<Rightarrow> - 1 | NaN \<Rightarrow> 0)"

definition infinity_of_sign :: "int \<Rightarrow> number" where
  "infinity_of_sign k = (if k < 0 then NegInfinity else PosInfinity)"

fun js_divide :: "number \<Rightarrow> number \<Rightarrow> number" where
  "js_divide NaN b = NaN"
| "js_divide a NaN = NaN"
| "js_divide (Fin x) (Fin y) =
     (if y = 0 then (if x = 0 then NaN else infinity_of_sign (sign_of (Fin x)))
      else binary64 (x / y))"
| "js_divide (Fin x) b = Fin 0"
| "js_divide a (Fin y) = infinity_of_sign (sign_of a * (if y < 0 then - 1 else 1))"
| "js_divide a b = NaN"

fun js_times :: "number \<Rightarrow> number \<Rightarrow> number" where
  "js_times NaN b = NaN"
| "js_times a NaN = NaN"
| "js_times (Fin x) (Fin y) = binary64 (x * y)"
| "js_times a b =
     (if sign_of a * sign_of b = 0 then NaN else infinity_of_sign (sign_of a * sign_of b))"

fun js_gt :: "number \<Rightarrow> number \<Rightarrow> bool" where
  "js_gt NaN b = False"
| "js_gt a NaN = False"
| "js_gt (Fin x) (Fin y) = (y < x)"
| "js_gt PosInfinity PosInfinity = False"
| "js_gt PosInfinity b = True"
| "js_gt a NegInfinity = (case a of NegInfinity \<Rightarrow> False | _ \<Rightarrow> True)"
| "js_gt a b = False"

text \<open>
  \<^verbatim>\<open>Number(total || 0)\<close>, where \<^verbatim>\<open>total\<close> is what the driver returns for \<^verbatim>\<open>sum(amount)\<close>:
  \<^verbatim>\<open>null\<close> when no row was summed, else the decimal text of the exact sum (a non-empty
  text, so \<^verbatim>\<open>||\<close> keeps it). \<open>Number\<close> of a decimal text is the binary64 value nearest to it.
\<close>

definition Number_or_0 :: "int option \<Rightarrow> number" where
  "Number_or_0 tot = (case tot of None \<Rightarrow> Fin 0 | Some c \<Rightarrow> binary64 (of_int c / 100))"

subsection \<open>The tables of \<^verbatim>\<open>shared/schema.ts\<close>\<close>

datatype transaction_type = T_income | T_expense

datatype category =
  C_food | C_transportation | C_entertainment | C_utilities | C_healthcare
| C_shopping | C_income | C_salary | C_freelance | C_investment | C_other

text \<open>The input routines of the two enum types: the label, or a rejection.\<close>

definition transaction_type_in :: "string \<Rightarrow> transaction_type option" where
  "transaction_type_in s =
     (if s = ''income'' then Some T_income else if s = ''expense'' then Some T_expense else None)"

definition category_in :: "string \<Rightarrow> category option" where
  "category_in s =
     (if s = ''food'' then Some C_food
      else if s = ''transportation'' then Some C_transportation
      else if s = ''entertainment'' then Some C_entertainment
      else if s = ''utilities'' then Some C_utilities
      else if s = ''healthcare'' then Some C_healthcare
      else if s = ''shopping'' then Some C_shopping
      else if s = ''income'' then Some C_income
      else if s = ''salary'' then Some C_salary
      else if s = ''freelance'' then Some C_freelance
      else if s = ''investment'' then Some C_investment
      else if s = ''other'' then Some C_other
      else None)"

text \<open>
  The input routine of \<^verbatim>\<open>decimal(10, 2)\<close> on a plain decimal numeral (optional sign,
  digits, optional fraction): the value in hundredths, rounded half away from zero, and
  a rejection when the rounded value needs more than ten digits. Exponents, blanks and
  \<^verbatim>\<open>NaN\<close> are not modelled: they read as rejected here.
\<close>

definition is_digit :: "char \<Rightarrow> bool" where
  "is_digit c = (CHR ''0'' \<le> c \<and> c \<le> CHR ''9'')"

definition digits_value :: "string \<Rightarrow> int" where
  "digits_value cs = foldl (\<lambda>a c. 10 * a + (of_char c - 48)) 0 cs"

definition numeric_in :: "string \<Rightarrow> int option" where
  "numeric_in s =
     (let neg = (take 1 s = ''-'');
          u = (if take 1 s = ''-'' \<or> take 1 s = ''+'' then drop 1 s else s);
          ip = takeWhile is_digit u;
          rest = dropWhile is_digit u;
          fp = (if rest = [] then Some []
                else if hd rest = CHR ''.'' \<and> list_all is_digit (tl rest) then Some (tl rest)
                else None)
      in case fp of
           None \<Rightarrow> None
         | Some f \<Rightarrow>
             (if ip = [] \<and> f = [] then None
              else
                (let cents = digits_value ip * 100 + digits_value (take 2 (f @ ''00''))
                       + (if 5 \<le> digits_value (take 1 (drop 2 f)) then 1 else 0)
                 in if 10 ^ 10 \<le> cents then None
                    else Some (if neg then - cents else cents))))"

type_synonym timestamp = nat

record "transaction" =
  tx_id :: string
  tx_userId :: string
  tx_type :: transaction_type
  tx_description :: string
  tx_amount :: int
  tx_category :: category
  tx_date :: date
  tx_currency :: "string option"
  tx_createdAt :: "timestamp option"
  tx_updatedAt :: "timestamp option"

record budget =
  bg_id :: string
  bg_userId :: string
  bg_category :: category
  bg_amount :: int
  bg_period :: "string option"
  bg_currency :: "string option"
  bg_createdAt :: "timestamp option"
  bg_updatedAt :: "timestamp option"

record goal =
  gl_id :: string
  gl_userId :: string
  gl_name :: string
  gl_description :: "string option"
  gl_targetAmount :: int
  gl_currentAmount :: "int option"
  gl_targetDate :: "date option"
  gl_currency :: "string option"
  gl_createdAt :: "timestamp option"
  gl_updatedAt :: "timestamp option"

text \<open>The store: the three tables. (The \<^verbatim>\<open>users\<close> and \<^verbatim>\<open>sessions\<close> tables belong to the
  authentication layer; the owner's row in \<^verbatim>\<open>users\<close>, which the foreign keys point to, is taken
  to exist.)\<close>

record store =
  transactions :: "transaction list"
  budgets :: "budget list"
  goals :: "goal list"

text \<open>What a storage method can throw.\<close>

datatype exn = DatabaseError | RangeError

subsection \<open>Queries on the transactions table\<close>

text \<open>
  The conditions the storage methods build with drizzle's \<^verbatim>\<open>eq\<close>, \<^verbatim>\<open>gte\<close> and \<^verbatim>\<open>lte\<close>
  on the columns of \<^verbatim>\<open>transactions\<close>. The right-hand side is the text parameter the method
  passes.
\<close>

datatype condition =
  eq_id string
| eq_userId string
| eq_type string
| eq_category string
| gte_date string
| lte_date string

text \<open>
  Binding a condition: the row predicate, or \<open>None\<close> when the column type's input routine
  rejects the parameter (the statement then fails, whatever the table holds).
\<close>

fun bind_condition :: "condition \<Rightarrow> (transaction \<Rightarrow> bool) option" where
  "bind_condition (eq_id s) = Some (\<lambda>r. tx_id r = s)"
| "bind_condition (eq_userId s) = Some (\<lambda>r. tx_userId r = s)"
| "bind_condition (eq_type s) = map_option (\<lambda>t r. tx_type r = t) (transaction_type_in s)"
| "bind_condition (eq_category s) = map_option (\<lambda>c r. tx_category r = c) (category_in s)"
| "bind_condition (gte_date s) = map_option (\<lambda>d r. d \<le> tx_date r) (date_in s)"
| "bind_condition (lte_date s) = map_option (\<lambda>d r. tx_date r \<le> d) (date_in s)"

text \<open>\<^verbatim>\<open>and(...conditions)\<close>.\<close>

fun and_conditions :: "condition list \<Rightarrow> (transaction \<Rightarrow> bool) option" where
  "and_conditions [] = Some (\<lambda>r. True)"
| "and_conditions (c # cs) =
     (case bind_condition c of
        None \<Rightarrow> None
      | Some p \<Rightarrow>
          (case and_conditions cs of None \<Rightarrow> None | Some q \<Rightarrow> Some (\<lambda>r. p r \<and> q r)))"

text \<open>\<^verbatim>\<open>db.select().from(transactions).where(and(...))\<close>.\<close>

definition select_where :: "condition list \<Rightarrow> transaction list \<Rightarrow> exn + transaction list" where
  "select_where cs rows =
     (case and_conditions cs of None \<Rightarrow> Inl DatabaseError | Some p \<Rightarrow> Inr (filter p rows))"

text \<open>
  \<^verbatim>\<open>.orderBy(desc(column))\<close>: descending by the key. Rows with equal keys keep their
  insertion order here; PostgreSQL leaves their order open.
\<close>

definition order_by_desc :: "('r \<Rightarrow> 'k::linorder) \<Rightarrow> 'r list \<Rightarrow> 'r list" where
  "order_by_desc key rows = rev (sort_key key (rev rows))"

text \<open>
  \<^verbatim>\<open>sum(amount)\<close> over the selected rows: SQL's \<^verbatim>\<open>NULL\<close> when there is none, else the
  exact sum.
\<close>

definition sum_amount :: "transaction list \<Rightarrow> int option" where
  "sum_amount rows = (if rows = [] then None else Some (sum_list (map tx_amount rows)))"

text \<open>
  \<^verbatim>\<open>select key, sum(amount) ... group by key\<close>: one row per key among the selected rows.
  The order of the groups is fixed here (PostgreSQL leaves it open).
\<close>

definition group_by_sum :: "(transaction \<Rightarrow> 'k) \<Rightarrow> transaction list \<Rightarrow> ('k \<times> int option) list" where
  "group_by_sum key rows =
     map (\<lambda>k. (k, sum_amount (filter (\<lambda>r. key r = k) rows))) (remdups (map key rows))"

subsection \<open>Transaction operations (\<^verbatim>\<open>DatabaseStorage\<close>)\<close>

text \<open>The \<^verbatim>\<open>filters\<close> argument of \<^verbatim>\<open>getTransactions\<close>; \<open>None\<close> is \<^verbatim>\<open>undefined\<close>.\<close>

record filters =
  startDate :: "string option"
  endDate :: "string option"
  category :: "string option"
  type :: "string option"

text \<open>
  \<^verbatim>\<open>if (filters?.field) conditions.push(...)\<close>: JavaScript's truth test on an optional text
  holds for a present, non-empty text only.
\<close>

definition push_if :: "string option \<Rightarrow> (string \<Rightarrow> condition) \<Rightarrow> condition list \<Rightarrow> condition list" where
  "push_if field mk conditions =
     (case field of
        None \<Rightarrow> conditions
      | Some s \<Rightarrow> (if s = [] then conditions else conditions @ [mk s]))"

definition getTransactions :: "store \<Rightarrow> string \<Rightarrow> filters option \<Rightarrow> exn + transaction list" where
  "getTransactions db userId fs =
     (let conditions = [eq_userId userId];
          conditions = push_if (Option.bind fs startDate) gte_date conditions;
          conditions = push_if (Option.bind fs endDate) lte_date conditions;
          conditions = push_if (Option.bind fs category) eq_category conditions;
          conditions = push_if (Option.bind fs type) eq_type conditions
      in case select_where conditions (transactions db) of
           Inl e \<Rightarrow> Inl e
         | Inr rows \<Rightarrow> Inr (order_by_desc tx_date rows))"

text \<open>
  The validated data of an insert, \<^verbatim>\<open>InsertTransaction\<close> without the columns the route's
  schema omits: the enum fields hold labels of their enums; \<^verbatim>\<open>amount\<close> and \<^verbatim>\<open>date\<close> are
  texts; for \<^verbatim>\<open>currency\<close>, \<open>None\<close> is an absent key and \<open>Some None\<close> is \<^verbatim>\<open>null\<close>.
\<close>

record insert_transaction =
  i_type :: transaction_type
  i_description :: string
  i_amount :: string
  i_category :: category
  i_date :: string
  i_currency :: "string option option"

text \<open>
  \<^verbatim>\<open>db.insert(transactions).values({...data, userId}).returning()\<close>. The statement fails when
  the amount or the date is rejected by its column's input routine, or the generated id is
  taken (primary key). An absent currency gets the column default.
\<close>

definition createTransaction ::
  "store \<Rightarrow> string \<Rightarrow> timestamp \<Rightarrow> insert_transaction \<Rightarrow> string \<Rightarrow> exn + store \<times> transaction" where
  "createTransaction db new_id now data userId =
     (case (numeric_in (i_amount data), date_in (i_date data)) of
        (Some a, Some d) \<Rightarrow>
          (if new_id \<in> set (map tx_id (transactions db)) then Inl DatabaseError
           else
             (let newTransaction =
                    \<lparr>tx_id = new_id, tx_userId = userId, tx_type = i_type data,
                     tx_description = i_description data, tx_amount = a,
                     tx_category = i_category data, tx_date = d,
                     tx_currency = (case i_currency data of None \<Rightarrow> Some ''INR'' | Some c \<Rightarrow> c),
                     tx_createdAt = Some now, tx_updatedAt = Some now\<rparr>
              in Inr (db\<lparr>transactions := transactions db @ [newTransaction]\<rparr>, newTransaction)))
      | _ \<Rightarrow> Inl DatabaseError)"

text \<open>
  The validated data of an update: \<^verbatim>\<open>Partial<InsertTransaction>\<close> as the route's
  \<^verbatim>\<open>insertTransactionSchema.partial()\<close> leaves it. \<open>None\<close> is an absent key.
\<close>

record update_transaction =
  u_type :: "transaction_type option"
  u_description :: "string option"
  u_amount :: "string option"
  u_category :: "category option"
  u_date :: "string option"
  u_currency :: "string option option"

text \<open>An optional text parameter through an input routine: absent stays absent.\<close>

definition cast_optional :: "(string \<Rightarrow> 'a option) \<Rightarrow> string option \<Rightarrow> 'a option option" where
  "cast_optional input field =
     (case field of None \<Rightarrow> Some None | Some s \<Rightarrow> map_option Some (input s))"

definition set_or_keep :: "'a option \<Rightarrow> 'a \<Rightarrow> 'a" where
  "set_or_keep field old = (case field of None \<Rightarrow> old | Some v \<Rightarrow> v)"

text \<open>
  \<^verbatim>\<open>db.update(transactions).set({...updates, updatedAt: new Date()}).where(and(eq(id),
  eq(userId))).returning()\<close>, and \<^verbatim>\<open>const [updated] = ...\<close>: the first updated row, or
  \<^verbatim>\<open>undefined\<close>.
\<close>

definition updateTransaction ::
  "store \<Rightarrow> timestamp \<Rightarrow> string \<Rightarrow> string \<Rightarrow> update_transaction
     \<Rightarrow> exn + store \<times> transaction option" where
  "updateTransaction db now id' userId updates =
     (case (cast_optional numeric_in (u_amount updates), cast_optional date_in (u_date updates)) of
        (Some a, Some d) \<Rightarrow>
          (let hit = (\<lambda>r. tx_id r = id' \<and> tx_userId r = userId);
               upd = (\<lambda>r. r\<lparr>tx_type := set_or_keep (u_type updates) (tx_type r),
                              tx_description := set_or_keep (u_description updates) (tx_description r),
                              tx_amount := set_or_keep a (tx_amount r),
                              tx_category := set_or_keep (u_category updates) (tx_category r),
                              tx_date := set_or_keep d (tx_date r),
                              tx_currency := set_or_keep (u_currency updates) (tx_currency r),
                              tx_updatedAt := Some now\<rparr>);
               returning = map upd (filter hit (transactions db))
           in Inr (db\<lparr>transactions := map (\<lambda>r. if hit r then upd r else r) (transactions db)\<rparr>,
                   (case returning of [] \<Rightarrow> None | updated # _ \<Rightarrow> Some updated)))
      | _ \<Rightarrow> Inl DatabaseError)"

text \<open>
  \<^verbatim>\<open>db.delete(transactions).where(and(eq(id), eq(userId)))\<close>, and
  \<^verbatim>\<open>(result.rowCount ?? 0) > 0\<close>.
\<close>

definition deleteTransaction :: "store \<Rightarrow> string \<Rightarrow> string \<Rightarrow> store \<times> bool" where
  "deleteTransaction db id' userId =
     (let hit = (\<lambda>r. tx_id r = id' \<and> tx_userId r = userId);
          rowCount = length (filter hit (transactions db))
      in (db\<lparr>transactions := filter (\<lambda>r. \<not> hit r) (transactions db)\<rparr>, 0 < rowCount))"

subsection \<open>Budget operations (\<^verbatim>\<open>DatabaseStorage\<close>)\<close>

text \<open>An enum column sorts by the position of the label in the enum's declaration.\<close>

fun category_position :: "category \<Rightarrow> nat" where
  "category_position C_food = 0"
| "category_position C_transportation = 1"
| "category_position C_entertainment = 2"
| "category_position C_utilities = 3"
| "category_position C_healthcare = 4"
| "category_position C_shopping = 5"
| "category_position C_income = 6"
| "category_position C_salary = 7"
| "category_position C_freelance = 8"
| "category_position C_investment = 9"
| "category_position C_other = 10"

definition getBudgets :: "store \<Rightarrow> string \<Rightarrow> budget list" where
  "getBudgets db userId =
     sort_key (\<lambda>b. category_position (bg_category b))
       (filter (\<lambda>b. bg_userId b = userId) (budgets db))"

record insert_budget =
  ib_category :: category
  ib_amount :: string
  ib_period :: "string option option"
  ib_currency :: "string option option"

definition createBudget ::
  "store \<Rightarrow> string \<Rightarrow> timestamp \<Rightarrow> insert_budget \<Rightarrow> string \<Rightarrow> exn + store \<times> budget" where
  "createBudget db new_id now data userId =
     (case numeric_in (ib_amount data) of
        Some a \<Rightarrow>
          (if new_id \<in> set (map bg_id (budgets db)) then Inl DatabaseError
           else
             (let newBudget =
                    \<lparr>bg_id = new_id, bg_userId = userId, bg_category = ib_category data,
                     bg_amount = a,
                     bg_period = (case ib_period data of None \<Rightarrow> Some ''monthly'' | Some p \<Rightarrow> p),
                     bg_currency = (case ib_currency data of None \<Rightarrow> Some ''INR'' | Some c \<Rightarrow> c),
                     bg_createdAt = Some now, bg_updatedAt = Some now\<rparr>
              in Inr (db\<lparr>budgets := budgets db @ [newBudget]\<rparr>, newBudget)))
      | None \<Rightarrow> Inl DatabaseError)"

record update_budget =
  ub_category :: "category option"
  ub_amount :: "string option"
  ub_period :: "string option option"
  ub_currency :: "string option option"

definition updateBudget ::
  "store \<Rightarrow> timestamp \<Rightarrow> string \<Rightarrow> string \<Rightarrow> update_budget \<Rightarrow> exn + store \<times> budget option" where
  "updateBudget db now id' userId updates =
     (case cast_optional numeric_in (ub_amount updates) of
        Some a \<Rightarrow>
          (let hit = (\<lambda>b. bg_id b = id' \<and> bg_userId b = userId);
               upd = (\<lambda>b. b\<lparr>bg_category := set_or_keep (ub_category updates) (bg_category b),
                              bg_amount := set_or_keep a (bg_amount b),
                              bg_period := set_or_keep (ub_period updates) (bg_period b),
                              bg_currency := set_or_keep (ub_currency updates) (bg_currency b),
                              bg_updatedAt := Some now\<rparr>);
               returning = map upd (filter hit (budgets db))
           in Inr (db\<lparr>budgets := map (\<lambda>b. if hit b then upd b else b) (budgets db)\<rparr>,
                   (case returning of [] \<Rightarrow> None | updated # _ \<Rightarrow> Some updated)))
      | None \<Rightarrow> Inl DatabaseError)"

definition deleteBudget :: "store \<Rightarrow> string \<Rightarrow> string \<Rightarrow> store \<times> bool" where
  "deleteBudget db id' userId =
     (let hit = (\<lambda>b. bg_id b = id' \<and> bg_userId b = userId);
          rowCount = length (filter hit (budgets db))
      in (db\<lparr>budgets := filter (\<lambda>b. \<not> hit b) (budgets db)\<rparr>, 0 < rowCount))"

subsection \<open>Goal operations (\<^verbatim>\<open>DatabaseStorage\<close>)\<close>

text \<open>\<^verbatim>\<open>.orderBy(goals.createdAt)\<close>: ascending, a \<^verbatim>\<open>NULL\<close> after every value.\<close>

definition nulls_last :: "timestamp option \<Rightarrow> nat \<times> nat" where
  "nulls_last t = (case t of None \<Rightarrow> (1, 0) | Some v \<Rightarrow> (0, v))"

definition getGoals :: "store \<Rightarrow> string \<Rightarrow> goal list" where
  "getGoals db userId =
     sort_key (\<lambda>g. nulls_last (gl_createdAt g)) (filter (\<lambda>g. gl_userId g = userId) (goals db))"

record insert_goal =
  ig_name :: string
  ig_description :: "string option option"
  ig_targetAmount :: string
  ig_currentAmount :: "string option option"
  ig_targetDate :: "string option option"
  ig_currency :: "string option option"

text \<open>
  An optional, nullable text parameter through an input routine: absent stays absent
  (\<open>None\<close>), \<^verbatim>\<open>null\<close> stays \<^verbatim>\<open>null\<close> (\<open>Some None\<close>).
\<close>

definition cast_nullable :: "(string \<Rightarrow> 'a option) \<Rightarrow> string option option \<Rightarrow> 'a option option option" where
  "cast_nullable input field =
     (case field of
        None \<Rightarrow> Some None
      | Some None \<Rightarrow> Some (Some None)
      | Some (Some s) \<Rightarrow> map_option (\<lambda>v. Some (Some v)) (input s))"

definition createGoal ::
  "store \<Rightarrow> string \<Rightarrow> timestamp \<Rightarrow> insert_goal \<Rightarrow> string \<Rightarrow> exn + store \<times> goal" where
  "createGoal db new_id now data userId =
     (case (numeric_in (ig_targetAmount data), cast_nullable numeric_in (ig_currentAmount data),
            cast_nullable date_in (ig_targetDate data)) of
        (Some target, Some current, Some td) \<Rightarrow>
          (if new_id \<in> set (map gl_id (goals db)) then Inl DatabaseError
           else
             (let newGoal =
                    \<lparr>gl_id = new_id, gl_userId = userId, gl_name = ig_name data,
                     gl_description = (case ig_description data of None \<Rightarrow> None | Some d \<Rightarrow> d),
                     gl_targetAmount = target,
                     gl_currentAmount = (case current of None \<Rightarrow> Some 0 | Some c \<Rightarrow> c),
                     gl_targetDate = (case td of None \<Rightarrow> None | Some d \<Rightarrow> d),
                     gl_currency = (case ig_currency data of None \<Rightarrow> Some ''INR'' | Some c \<Rightarrow> c),
                     gl_createdAt = Some now, gl_updatedAt = Some now\<rparr>
              in Inr (db\<lparr>goals := goals db @ [newGoal]\<rparr>, newGoal)))
      | _ \<Rightarrow> Inl DatabaseError)"

record update_goal =
  ug_name :: "string option"
  ug_description :: "string option option"
  ug_targetAmount :: "string option"
  ug_currentAmount :: "string option option"
  ug_targetDate :: "string option option"
  ug_currency :: "string option option"

definition updateGoal ::
  "store \<Rightarrow> timestamp \<Rightarrow> string \<Rightarrow> string \<Rightarrow> update_goal \<Rightarrow> exn + store \<times> goal option" where
  "updateGoal db now id' userId updates =
     (case (cast_optional numeric_in (ug_targetAmount updates),
            cast_nullable numeric_in (ug_currentAmount updates),
            cast_nullable date_in (ug_targetDate updates)) of
        (Some target, Some current, Some td) \<Rightarrow>
          (let hit = (\<lambda>g. gl_id g = id' \<and> gl_userId g = userId);
               upd = (\<lambda>g. g\<lparr>gl_name := set_or_keep (ug_name updates) (gl_name g),
                              gl_description := set_or_keep (ug_description updates) (gl_description g),
                              gl_targetAmount := set_or_keep target (gl_targetAmount g),
                              gl_currentAmount := set_or_keep current (gl_currentAmount g),
                              gl_targetDate := set_or_keep td (gl_targetDate g),
                              gl_currency := set_or_keep (ug_currency updates) (gl_currency g),
                              gl_updatedAt := Some now\<rparr>);
               returning = map upd (filter hit (goals db))
           in Inr (db\<lparr>goals := map (\<lambda>g. if hit g then upd g else g) (goals db)\<rparr>,
                   (case returning of [] \<Rightarrow> None | updated # _ \<Rightarrow> Some updated)))
      | _ \<Rightarrow> Inl DatabaseError)"

definition deleteGoal :: "store \<Rightarrow> string \<Rightarrow> string \<Rightarrow> store \<times> bool" where
  "deleteGoal db id' userId =
     (let hit = (\<lambda>g. gl_id g = id' \<and> gl_userId g = userId);
          rowCount = length (filter hit (goals db))
      in (db\<lparr>goals := filter (\<lambda>g. \<not> hit g) (goals db)\<rparr>, 0 < rowCount))"

subsection \<open>The route \<^verbatim>\<open>POST /api/transactions\<close>\<close>

text \<open>A value of a key of the request's JSON body.\<close>

datatype json = JNull | JBoolean bool | JNumber rat | JString string | JCompound







subsection \<open>Analytics operations (\<^verbatim>\<open>DatabaseStorage\<close>)\<close>

record dashboard =
  totalBalance :: number
  monthlyIncome :: number
  monthlyExpenses :: number
  savingsRate :: number

text \<open>
  \<open>today\<close> is the UTC calendar day of \<^verbatim>\<open>new Date()\<close>. The month's bounds are the texts
  \<^verbatim>\<open>YYYY-MM-01\<close> and \<^verbatim>\<open>YYYY-MM-31\<close>, passed to the date comparisons.
\<close>

definition getDashboardData :: "store \<Rightarrow> date \<Rightarrow> string \<Rightarrow> exn + dashboard" where
  "getDashboardData db today userId =
     (let currentMonth = take 7 (toISOString today);
          startOfMonth = currentMonth @ ''-01'';
          endOfMonth = currentMonth @ ''-31''
      in case select_where [eq_userId userId, eq_type ''income'', gte_date startOfMonth,
                            lte_date endOfMonth] (transactions db) of
           Inl e \<Rightarrow> Inl e
         | Inr incomeRows \<Rightarrow>
             (case select_where [eq_userId userId, eq_type ''expense'', gte_date startOfMonth,
                                 lte_date endOfMonth] (transactions db) of
                Inl e \<Rightarrow> Inl e
              | Inr expenseRows \<Rightarrow>
                  (let income = Number_or_0 (sum_amount incomeRows);
                       expenses = Number_or_0 (sum_amount expenseRows)
                   in Inr \<lparr>totalBalance = js_minus income expenses,
                           monthlyIncome = income,
                           monthlyExpenses = expenses,
                           savingsRate =
                             (if js_gt income (Fin 0)
                              then js_times (js_divide (js_minus income expenses) income) (Fin 100)
                              else Fin 0)\<rparr>)))"

record category_amount =
  ca_category :: category
  ca_amount :: number

definition getExpensesByCategory ::
  "store \<Rightarrow> string \<Rightarrow> string \<Rightarrow> string \<Rightarrow> exn + category_amount list" where
  "getExpensesByCategory db userId startDate' endDate' =
     (case select_where [eq_userId userId, eq_type ''expense'', gte_date startDate',
                         lte_date endDate'] (transactions db) of
        Inl e \<Rightarrow> Inl e
      | Inr rows \<Rightarrow>
          Inr (map (\<lambda>row. \<lparr>ca_category = fst row, ca_amount = Number_or_0 (snd row)\<rparr>)
                 (group_by_sum tx_category rows)))"

text \<open>
  \<^verbatim>\<open>startDate.setMonth(index)\<close> on the date \<open>(y, m, d)\<close>: the month \<open>index\<close> counted from
  January of \<open>y\<close> (any integer), the same day of the month; a day the target month does
  not have runs over into the next month.
\<close>

definition setMonth :: "date \<Rightarrow> int \<Rightarrow> date" where
  "setMonth dt index =
     (case dt of (y, m, d) \<Rightarrow>
        (let t = y * 12 + index; y' = t div 12; m' = t mod 12 + 1; n = days_in_month y' m'
         in if d \<le> n then (y', m', d) else (y', m' + 1, d - n)))"

definition getMonth :: "date \<Rightarrow> int" where
  "getMonth dt = (case dt of (y, m, d) \<Rightarrow> m - 1)"

record month_amounts =
  month :: string
  income :: number
  expenses :: number

text \<open>
  The loop over the grouped rows: \<^verbatim>\<open>monthlyData\<close> is an object keyed by the month text,
  kept here as the list of its entries in insertion order (a key \<^verbatim>\<open>YYYY-MM\<close> is not an
  array index, so \<^verbatim>\<open>Object.entries\<close> lists the keys in that order).
\<close>

definition monthlyData_step ::
  "(string \<times> transaction_type) \<times> int option \<Rightarrow> (string \<times> number \<times> number) list
     \<Rightarrow> (string \<times> number \<times> number) list" where
  "monthlyData_step row monthlyData =
     (let k = fst (fst row);
          md = (if k \<in> set (map fst monthlyData) then monthlyData
                else monthlyData @ [(k, Fin 0, Fin 0)])
      in map (\<lambda>entry.
                if fst entry = k then
                  (if snd (fst row) = T_income
                   then (k, Number_or_0 (snd row), snd (snd entry))
                   else (k, fst (snd entry), Number_or_0 (snd row)))
                else entry) md)"

text \<open>
  \<open>months\<close> is the route's \<^verbatim>\<open>parseInt(...)\<close>: an integer, or \<open>None\<close> for \<^verbatim>\<open>NaN\<close>. A start
  date outside the range of \<^verbatim>\<open>Date\<close> is an invalid date, and \<^verbatim>\<open>toISOString\<close> throws on it
  (the range is taken by whole years here).
\<close>

definition getIncomeVsExpenses :: "store \<Rightarrow> date \<Rightarrow> string \<Rightarrow> int option \<Rightarrow> exn + month_amounts list" where
  "getIncomeVsExpenses db today userId months =
     (case months of
        None \<Rightarrow> Inl RangeError
      | Some n \<Rightarrow>
          (let startDate' = setMonth today (getMonth today - n)
           in if fst startDate' < - 271821 \<or> 275760 < fst startDate' then Inl RangeError
              else
                (case select_where [eq_userId userId, gte_date (take 10 (toISOString startDate'))]
                        (transactions db) of
                   Inl e \<Rightarrow> Inl e
                 | Inr rows \<Rightarrow>
                     (let result = sort_key (\<lambda>row. fst (fst row))
                                     (group_by_sum (\<lambda>r. (to_char_YYYY_MM (tx_date r), tx_type r)) rows);
                          monthlyData = fold monthlyData_step result []
                      in Inr (map (\<lambda>entry. \<lparr>month = fst entry, income = fst (snd entry),
                                                expenses = snd (snd entry)\<rparr>) monthlyData)))))"

subsection \<open>What the specification says of a filter and of ownership\<close>




text \<open>The rows an owner holds, and the rows the other owners hold.\<close>

definition rows_of_owner :: "string \<Rightarrow> store \<Rightarrow> transaction list \<times> budget list \<times> goal list" where
  "rows_of_owner a db =
     (filter (\<lambda>r. tx_userId r = a) (transactions db), filter (\<lambda>b. bg_userId b = a) (budgets db),
      filter (\<lambda>g. gl_userId g = a) (goals db))"

definition rows_of_others :: "string \<Rightarrow> store \<Rightarrow> transaction list \<times> budget list \<times> goal list" where
  "rows_of_others a db =
     (filter (\<lambda>r. \<not> tx_userId r = a) (transactions db),
      filter (\<lambda>b. \<not> bg_userId b = a) (budgets db),
      filter (\<lambda>g. \<not> gl_userId g = a) (goals db))"


text \<open>The rows of an owner, of one type, dated in the calendar month of a day.\<close>

definition in_month :: "date \<Rightarrow> date \<Rightarrow> bool" where
  "in_month today dt = (fst dt = fst today \<and> fst (snd dt) = fst (snd today))"

definition month_rows :: "store \<Rightarrow> string \<Rightarrow> transaction_type \<Rightarrow> date \<Rightarrow> transaction list" where
  "month_rows db userId ty today =
     filter (\<lambda>r. tx_userId r = userId \<and> tx_type r = ty \<and> in_month today (tx_date r)) (transactions db)"








text \<open>The expenses of an owner dated within two days, and the sum of one category's rows.\<close>

definition expenses_between :: "store \<Rightarrow> string \<Rightarrow> date \<Rightarrow> date \<Rightarrow> transaction list" where
  "expenses_between db userId d1 d2 =
     filter (\<lambda>r. tx_userId r = userId \<and> tx_type r = T_expense \<and> d1 \<le> tx_date r \<and> tx_date r \<le> d2)
       (transactions db)"

definition category_sum :: "category \<Rightarrow> transaction list \<Rightarrow> int" where
  "category_sum c rows = sum_list (map tx_amount (filter (\<lambda>r. tx_category r = c) rows))"


subsection \<open>A small store for the concrete cases\<close>

text \<open>Two owners: \<^verbatim>\<open>u1\<close> with three transactions and a budget, \<^verbatim>\<open>u2\<close> with one
  transaction and a goal. Amounts are in hundredths.\<close>

definition ex_salary :: "transaction" where
  "ex_salary = \<lparr>tx_id = ''t1'', tx_userId = ''u1'', tx_type = T_income, tx_description = ''pay'',
     tx_amount = 120, tx_category = C_salary, tx_date = (2024, 1, 15), tx_currency = Some ''INR'',
     tx_createdAt = Some 1, tx_updatedAt = Some 1\<rparr>"
definition ex_tea :: "transaction" where
  "ex_tea = \<lparr>tx_id = ''t2'', tx_userId = ''u1'', tx_type = T_expense, tx_description = ''tea'',
     tx_amount = 10, tx_category = C_food, tx_date = (2024, 1, 20), tx_currency = Some ''INR'',
     tx_createdAt = Some 2, tx_updatedAt = Some 2\<rparr>"
definition ex_bus :: "transaction" where
  "ex_bus = \<lparr>tx_id = ''t3'', tx_userId = ''u2'', tx_type = T_expense, tx_description = ''bus'',
     tx_amount = 150, tx_category = C_transportation, tx_date = (2024, 2, 5), tx_currency = None,
     tx_createdAt = Some 3, tx_updatedAt = Some 3\<rparr>"
definition ex_power :: "transaction" where
  "ex_power = \<lparr>tx_id = ''t4'', tx_userId = ''u1'', tx_type = T_expense, tx_description = ''power'',
     tx_amount = 250, tx_category = C_utilities, tx_date = (2024, 2, 20), tx_currency = Some ''INR'',
     tx_createdAt = Some 4, tx_updatedAt = Some 4\<rparr>"
definition ex_budget :: budget where
  "ex_budget = \<lparr>bg_id = ''b1'', bg_userId = ''u1'', bg_category = C_food, bg_amount = 50000,
     bg_period = Some ''monthly'', bg_currency = Some ''INR'', bg_createdAt = Some 5,
     bg_updatedAt = Some 5\<rparr>"
definition ex_goal :: goal where
  "ex_goal = \<lparr>gl_id = ''g1'', gl_userId = ''u2'', gl_name = ''bike'', gl_description = None,
     gl_targetAmount = 900000, gl_currentAmount = Some 0, gl_targetDate = Some (2024, 12, 31),
     gl_currency = Some ''INR'', gl_createdAt = Some 8, gl_updatedAt = Some 8\<rparr>"

definition ex_store :: store where
  "ex_store = \<lparr>transactions = [ex_salary, ex_tea, ex_bus, ex_power], budgets = [ex_budget],
     goals = [ex_goal]\<rparr>"


text \<open>A store whose only row is an income of 100.00 on 10 April 2024.\<close>

definition ex_april :: "transaction" where
  "ex_april = \<lparr>tx_id = ''t7'', tx_userId = ''u1'', tx_type = T_income, tx_description = ''pay'',
     tx_amount = 10000, tx_category = C_salary, tx_date = (2024, 4, 10), tx_currency = Some ''INR'',
     tx_createdAt = Some 7, tx_updatedAt = Some 7\<rparr>"

definition ex_store_april :: store where
  "ex_store_april = \<lparr>transactions = [ex_april], budgets = [], goals = []\<rparr>"


text \<open>A store whose only row is an expense of 0.00.\<close>

definition ex_free :: "transaction" where
  "ex_free = \<lparr>tx_id = ''t6'', tx_userId = ''u1'', tx_type = T_expense, tx_description = ''sample'',
     tx_amount = 0, tx_category = C_food, tx_date = (2024, 1, 10), tx_currency = Some ''INR'',
     tx_createdAt = Some 6, tx_updatedAt = Some 6\<rparr>"

definition ex_store_free :: store where
  "ex_store_free = \<lparr>transactions = [ex_free], budgets = [], goals = []\<rparr>"





section \<open>Properties\<close>

subsection \<open>The text of a date\<close>

lemma digit_of_digit_char: "0 \<le> k \<Longrightarrow> k < 10 \<Longrightarrow> digit_of (digit_char k) = Some k"
proof -
  assume k: "0 \<le> k" "k < 10"
  have "digit_char k = char_of (48 + nat k)"
    using k char_of_nat[of "48 + nat k", where ?'a = int] by (simp add: digit_char_def)
  moreover have n: "nat k < 10" using k by simp
  moreover have "(of_char (char_of (48 + nat k)) :: int) = int (of_char (char_of (48 + nat k)))"
    by (simp only: of_nat_of_char)
  then have "(of_char (char_of (48 + nat k)) :: int) = 48 + k"
    using k n by simp
  ultimately show ?thesis
    using k by (simp add: digit_of_def less_eq_char_def)
qed

lemma length_pad: "length (pad w n) = w"
  by (induction w arbitrary: n) simp_all

lemma digits_in_append:
  "digits_in acc (xs @ ys) = (case digits_in acc xs of None \<Rightarrow> None | Some v \<Rightarrow> digits_in v ys)"
  by (induction xs arbitrary: acc) (simp_all split: option.splits)

lemma digits_in_pad: "0 \<le> n \<Longrightarrow> digits_in acc (pad w n) = Some (acc * 10 ^ w + n mod 10 ^ w)"
proof (induction w arbitrary: n acc)
  case 0
  show ?case by simp
next
  case (Suc w)
  have "n mod 10 ^ Suc w = (n div 10 mod 10 ^ w) * 10 + n mod 10"
    using zmod_zmult2_eq[of "10 ^ w" n 10] by simp
  moreover have "0 \<le> n div 10" using Suc.prems by simp
  ultimately show ?case
    by (simp add: digits_in_append Suc.IH digit_of_digit_char algebra_simps)
qed

lemma date_in_ymd:
  assumes "0 \<le> y" "y < 10000" "0 \<le> m" "m < 100" "0 \<le> d" "d < 100"
  shows "date_in (pad 4 y @ ''-'' @ pad 2 m @ ''-'' @ pad 2 d) =
           (if valid_date (y, m, d) then Some (y, m, d) else None)"
proof -
  have l4: "length (pad 4 y) = 4" and l2: "length (pad 2 m) = 2" "length (pad 2 d) = 2"
    by (simp_all only: length_pad)
  have a: "take 4 (pad 4 y @ ''-'' @ pad 2 m @ ''-'' @ pad 2 d) = pad 4 y"
    using l4 by simp
  have b: "take 2 (drop 5 (pad 4 y @ ''-'' @ pad 2 m @ ''-'' @ pad 2 d)) = pad 2 m"
    using l4 l2 by simp
  have c: "drop 8 (pad 4 y @ ''-'' @ pad 2 m @ ''-'' @ pad 2 d) = pad 2 d"
    using l4 l2 by simp
  have d4: "(pad 4 y @ ''-'' @ pad 2 m @ ''-'' @ pad 2 d) ! 4 = CHR ''-''"
    using l4 by (simp add: nth_append)
  have d7: "(pad 4 y @ ''-'' @ pad 2 m @ ''-'' @ pad 2 d) ! 7 = CHR ''-''"
    using l4 l2 by (simp add: nth_append)
  have len: "length (pad 4 y @ ''-'' @ pad 2 m @ ''-'' @ pad 2 d) = 10"
    using l4 l2 by simp
  show ?thesis
    unfolding date_in_def a b c
    using assms d4 d7 len by (simp add: digits_in_pad)
qed

subsection \<open>Rounding to binary64\<close>

lemma floor_divide_numeral_rat: "\<lfloor>(numeral a :: rat) / numeral b\<rfloor> = numeral a div numeral b"
  using floor_divide_of_int_eq[of "numeral a" "numeral b", where ?'a = rat] by simp

lemma ceiling_divide_numeral_rat:
  "\<lceil>(numeral a :: rat) / numeral b\<rceil> = - (- numeral a div numeral b)"
  using ceiling_divide_eq_div[of "numeral a" "numeral b", where ?'a = rat] by simp

text \<open>The rules that evaluate \<open>binary64\<close> on a numeral.\<close>

lemmas binary64_numeral =
  binary64_def floor_log2_def round_ties_even_def pow2_def compute_bitlen Let_def
  floor_divide_numeral_rat ceiling_divide_numeral_rat Number_or_0_def

lemma pow2_pos: "0 < pow2 e"
  by (simp add: pow2_def)

lemma pow2_powi: "pow2 e = 2 powi e"
  by (simp add: pow2_def power_int_def inverse_eq_divide power_one_over)

lemma pow2_mono: "a \<le> b \<Longrightarrow> pow2 a \<le> pow2 b"
  by (simp add: pow2_powi power_int_increasing)

lemma floor_log2_lower:
  assumes "0 < q"
  shows "pow2 (floor_log2 q) \<le> q"
proof (cases "1 \<le> q")
  case True
  define n where "n = \<lfloor>q\<rfloor>"
  have n: "1 \<le> n" using True by (simp add: n_def)
  then have bl: "1 \<le> bitlen n"
    using bitlen_eq_zero_iff[of n] bitlen_nonneg[of n] by linarith
  have "(2::int) ^ nat (bitlen n - 1) \<le> n"
    using bitlen_bounds[of n] n by simp
  then have "(of_int ((2::int) ^ nat (bitlen n - 1)) :: rat) \<le> of_int n"
    by (simp only: of_int_le_iff)
  also have "\<dots> \<le> q" by (simp add: n_def)
  finally show ?thesis
    using True bl by (simp add: floor_log2_def pow2_def n_def)
next
  case False
  define x where "x = \<lceil>1 / q\<rceil>"
  have "1 < 1 / q" using False assms by simp
  then have x2: "2 \<le> x" unfolding x_def by linarith
  then have bl: "1 \<le> bitlen (x - 1)"
    using bitlen_eq_zero_iff[of "x - 1"] bitlen_nonneg[of "x - 1"] by linarith
  have "x - 1 < 2 ^ nat (bitlen (x - 1))"
    using bitlen_bounds[of "x - 1"] x2 by simp
  then have "x \<le> 2 ^ nat (bitlen (x - 1))" by simp
  then have "(of_int x :: rat) \<le> of_int (2 ^ nat (bitlen (x - 1)))"
    by (simp only: of_int_le_iff)
  also have "\<dots> = 2 ^ nat (bitlen (x - 1))" by simp
  finally have "(of_int x :: rat) \<le> 2 ^ nat (bitlen (x - 1))" .
  moreover have "1 / q \<le> of_int x" by (simp add: x_def)
  ultimately have "1 / q \<le> 2 ^ nat (bitlen (x - 1))" by (rule order_trans[rotated])
  then have "1 / 2 ^ nat (bitlen (x - 1)) \<le> q"
    using assms by (simp add: field_simps)
  then show ?thesis
    using False bl by (simp add: floor_log2_def pow2_def x_def)
qed

lemma floor_log2_upper:
  assumes "0 < q"
  shows "q < pow2 (floor_log2 q + 1)"
proof (cases "1 \<le> q")
  case True
  define n where "n = \<lfloor>q\<rfloor>"
  have n: "1 \<le> n" using True by (simp add: n_def)
  then have bl: "1 \<le> bitlen n"
    using bitlen_eq_zero_iff[of n] bitlen_nonneg[of n] by linarith
  have "n < 2 ^ nat (bitlen n)"
    using bitlen_bounds[of n] n by simp
  then have "n + 1 \<le> 2 ^ nat (bitlen n)" by simp
  then have "(of_int (n + 1) :: rat) \<le> of_int (2 ^ nat (bitlen n))"
    by (simp only: of_int_le_iff)
  moreover have "q < of_int (n + 1)" unfolding n_def by linarith
  ultimately have "q < of_int (2 ^ nat (bitlen n))" by (rule less_le_trans[rotated])
  then show ?thesis
    using True bl by (simp add: floor_log2_def pow2_def n_def)
next
  case False
  define x where "x = \<lceil>1 / q\<rceil>"
  define b where "b = bitlen (x - 1)"
  have "1 < 1 / q" using False assms by simp
  then have x2: "2 \<le> x" unfolding x_def by linarith
  then have bl: "1 \<le> b"
    using bitlen_eq_zero_iff[of "x - 1"] bitlen_nonneg[of "x - 1"] unfolding b_def by linarith
  have "(2::int) ^ nat (b - 1) \<le> x - 1"
    using bitlen_bounds[of "x - 1"] x2 unfolding b_def by simp
  then have "(of_int (2 ^ nat (b - 1)) :: rat) \<le> of_int (x - 1)"
    by (simp only: of_int_le_iff)
  moreover have "of_int (x - 1) < 1 / q" unfolding x_def by linarith
  ultimately have "(of_int (2 ^ nat (b - 1)) :: rat) < 1 / q" by (rule le_less_trans)
  then have lt: "(2::rat) ^ nat (b - 1) < 1 / q" by simp
  have p: "(0::rat) < 2 ^ nat (b - 1)" by simp
  from lt assms p have "q < 1 / 2 ^ nat (b - 1)"
    by (simp add: field_simps)
  moreover have "pow2 (floor_log2 q + 1) = 1 / 2 ^ nat (b - 1)"
    using False bl by (simp add: floor_log2_def pow2_def x_def b_def)
  ultimately show ?thesis by simp
qed

lemma round_ties_even_ge_1: "1 \<le> q \<Longrightarrow> 1 \<le> round_ties_even q"
proof -
  assume "1 \<le> q"
  then have "1 \<le> \<lfloor>q\<rfloor>" by simp
  then show ?thesis by (simp add: round_ties_even_def Let_def)
qed

lemma binary64_positive:
  assumes "0 < q" "pow2 (- 1074) \<le> q"
  shows "js_gt (binary64 q) (Fin 0)"
proof -
  define e where "e = max (floor_log2 q - 52) (- 1074)"
  have "pow2 e \<le> q"
  proof (cases "- 1074 \<le> floor_log2 q - 52")
    case True
    then have "pow2 e \<le> pow2 (floor_log2 q)" by (simp add: e_def pow2_mono)
    then show ?thesis using floor_log2_lower[OF assms(1)] by simp
  next
    case False
    then show ?thesis using assms(2) by (simp add: e_def max_def)
  qed
  then have "1 \<le> q / pow2 e" using pow2_pos[of e] by (simp add: field_simps)
  then have "1 \<le> round_ties_even (q / pow2 e)" by (rule round_ties_even_ge_1)
  then have "0 < (of_int (round_ties_even (q / pow2 e)) :: rat) * pow2 e"
    using pow2_pos[of e] by simp
  then show ?thesis
    using assms(1) by (simp add: binary64_def Let_def e_def[symmetric])
qed

lemma round_ties_even_nonneg: "0 \<le> q \<Longrightarrow> 0 \<le> round_ties_even q"
proof -
  assume "0 \<le> q"
  then have "0 \<le> \<lfloor>q\<rfloor>" by simp
  then show ?thesis by (simp add: round_ties_even_def Let_def)
qed

lemma binary64_not_positive:
  assumes "q \<le> 0"
  shows "\<not> js_gt (binary64 q) (Fin 0)"
proof (cases "q = 0")
  case True
  then show ?thesis by (simp add: binary64_def)
next
  case False
  define e where "e = max (floor_log2 \<bar>q\<bar> - 52) (- 1074)"
  define r where "r = (of_int (round_ties_even (\<bar>q\<bar> / pow2 e)) :: rat) * pow2 e"
  have "0 \<le> \<bar>q\<bar> / pow2 e" using pow2_pos[of e] by simp
  then have "0 \<le> round_ties_even (\<bar>q\<bar> / pow2 e)" by (rule round_ties_even_nonneg)
  then have r: "0 \<le> r"
    using pow2_pos[of e] by (simp add: r_def)
  have "binary64 q = (if 2 ^ 1024 \<le> r then NegInfinity else Fin (- r))"
    using assms False by (simp add: binary64_def Let_def e_def r_def)
  then show ?thesis using r by simp
qed

lemma Number_or_0_positive_iff: "js_gt (Number_or_0 (Some c)) (Fin 0) \<longleftrightarrow> 0 < c"
proof (cases "0 < c")
  case True
  then have "1 \<le> c" by simp
  then have "(1::rat) \<le> of_int c" by (simp only: of_int_1_le_iff)
  then have "(1::rat) / 100 \<le> of_int c / 100" by simp
  moreover have "pow2 (- 1074) \<le> 1 / 100"
    by (simp add: pow2_def)
  ultimately have "pow2 (- 1074) \<le> of_int c / 100" by linarith
  moreover have "(0::rat) < of_int c / 100" using True by simp
  ultimately show ?thesis using True by (simp add: Number_or_0_def binary64_positive)
next
  case False
  then have "(of_int c :: rat) / 100 \<le> 0" by simp
  then show ?thesis using False by (simp add: Number_or_0_def binary64_not_positive)
qed

subsection \<open>Listing and deleting transactions\<close>

lemma set_order_by_desc: "set (order_by_desc key rows) = set rows"
  by (simp add: order_by_desc_def)


lemma and_conditions_owner:
  "and_conditions (eq_userId u # cs) = Some p \<Longrightarrow> p r \<Longrightarrow> tx_userId r = u"
  by (auto split: option.splits)

lemma push_if_owner: "\<exists>ds. push_if field mk (eq_userId u # cs) = eq_userId u # ds"
  by (simp add: push_if_def split: option.splits)

lemma getTransactions_owner:
  assumes "getTransactions db userId fs = Inr rows" "r \<in> set rows"
  shows "tx_userId r = userId"
proof -
  obtain d1 where d1: "push_if (Option.bind fs startDate) gte_date [eq_userId userId] = eq_userId userId # d1"
    using push_if_owner by blast
  obtain d2 where d2: "push_if (Option.bind fs endDate) lte_date (eq_userId userId # d1) = eq_userId userId # d2"
    using push_if_owner by blast
  obtain d3 where d3: "push_if (Option.bind fs category) eq_category (eq_userId userId # d2) = eq_userId userId # d3"
    using push_if_owner by blast
  obtain d4 where d4: "push_if (Option.bind fs type) eq_type (eq_userId userId # d3) = eq_userId userId # d4"
    using push_if_owner by blast
  from assms(1) obtain p where p: "and_conditions (eq_userId userId # d4) = Some p"
    and rows: "rows = order_by_desc tx_date (filter p (transactions db))"
    by (auto simp add: getTransactions_def Let_def d1 d2 d3 d4 select_where_def
        simp del: and_conditions.simps split: option.splits)
  from assms(2) rows have "p r" by (simp add: set_order_by_desc)
  with p show ?thesis by (rule and_conditions_owner)
qed

text \<open>
  Claim C10. A filter field that holds the empty text is treated like an absent field:
  for each of \<^verbatim>\<open>startDate\<close>, \<^verbatim>\<open>endDate\<close>, \<^verbatim>\<open>category\<close> and \<^verbatim>\<open>type\<close>, \<^verbatim>\<open>getTransactions\<close> with
  the field set to \<^verbatim>\<open>""\<close> returns what it returns with the field absent, and a filter of
  four empty texts returns all of the owner's transactions (newest first), not an empty
  list and not an error.
\<close>

theorem getTransactions_empty_text_is_absent:
  "getTransactions db userId (Some (fs\<lparr>startDate := Some ''''\<rparr>)) =
     getTransactions db userId (Some (fs\<lparr>startDate := None\<rparr>))
   \<and> getTransactions db userId (Some (fs\<lparr>endDate := Some ''''\<rparr>)) =
     getTransactions db userId (Some (fs\<lparr>endDate := None\<rparr>))
   \<and> getTransactions db userId (Some (fs\<lparr>category := Some ''''\<rparr>)) =
     getTransactions db userId (Some (fs\<lparr>category := None\<rparr>))
   \<and> getTransactions db userId (Some (fs\<lparr>type := Some ''''\<rparr>)) =
     getTransactions db userId (Some (fs\<lparr>type := None\<rparr>))
   \<and> getTransactions db userId
       (Some \<lparr>startDate = Some '''', endDate = Some '''', category = Some '''', type = Some ''''\<rparr>) =
     Inr (order_by_desc tx_date (filter (\<lambda>r. tx_userId r = userId) (transactions db)))"
  by (simp add: getTransactions_def push_if_def select_where_def)













lemma filter_unique_key:
  "distinct (map f xs) \<Longrightarrow> b \<in> set xs \<Longrightarrow> filter (\<lambda>x. f x = f b \<and> P x) xs = (if P b then [b] else [])"
proof (induction xs)
  case Nil
  then show ?case by simp
next
  case (Cons x xs)
  show ?case
  proof (cases "x = b")
    case True
    with Cons.prems(1) have "\<forall>y \<in> set xs. f y \<noteq> f b" by (auto simp add: image_iff)
    then have "filter (\<lambda>x. f x = f b \<and> P x) xs = []" by (simp add: filter_empty_conv)
    with True show ?thesis by simp
  next
    case False
    with Cons.prems have b: "b \<in> set xs" and d: "distinct (map f xs)" by simp_all
    with Cons.prems(1) have "f x \<noteq> f b" by (auto simp add: image_iff)
    with Cons.IH[OF d b] show ?thesis by simp
  qed
qed

lemma map_update_unique_key:
  "distinct (map f xs) \<Longrightarrow> b \<in> set xs \<Longrightarrow>
     map (\<lambda>x. if f x = f b \<and> P x then g x else x) xs = map (\<lambda>x. if x = b \<and> P b then g b else x) xs"
  by (rule map_cong) (auto simp add: distinct_map inj_on_def)

subsection \<open>Updating a budget\<close>

text \<open>
  Claim C9. For a budget row of the caller (ids are the table's primary key), an update
  whose patch holds only \<^verbatim>\<open>period\<close> succeeds, returns the row with the new period and
  \<^verbatim>\<open>updatedAt\<close> set to the time of the call, and changes nothing else: the row's amount,
  category, currency, \<^verbatim>\<open>createdAt\<close>, id and owner are as before, and so is every other row.
\<close>

theorem updateBudget_period_only:
  assumes "distinct (map bg_id (budgets db))" and "b \<in> set (budgets db)" and "bg_userId b = userId"
  shows "updateBudget db now (bg_id b) userId
           \<lparr>ub_category = None, ub_amount = None, ub_period = Some p, ub_currency = None\<rparr> =
         Inr (db\<lparr>budgets := map (\<lambda>x. if x = b then b\<lparr>bg_period := p, bg_updatedAt := Some now\<rparr> else x)
                               (budgets db)\<rparr>,
              Some (b\<lparr>bg_period := p, bg_updatedAt := Some now\<rparr>))
         \<and> bg_amount (b\<lparr>bg_period := p, bg_updatedAt := Some now\<rparr>) = bg_amount b
         \<and> bg_category (b\<lparr>bg_period := p, bg_updatedAt := Some now\<rparr>) = bg_category b
         \<and> bg_currency (b\<lparr>bg_period := p, bg_updatedAt := Some now\<rparr>) = bg_currency b
         \<and> bg_createdAt (b\<lparr>bg_period := p, bg_updatedAt := Some now\<rparr>) = bg_createdAt b
         \<and> bg_id (b\<lparr>bg_period := p, bg_updatedAt := Some now\<rparr>) = bg_id b
         \<and> bg_userId (b\<lparr>bg_period := p, bg_updatedAt := Some now\<rparr>) = bg_userId b
         \<and> bg_updatedAt (b\<lparr>bg_period := p, bg_updatedAt := Some now\<rparr>) = Some now"
proof -
  let ?upd = "\<lambda>x. x\<lparr>bg_period := p, bg_updatedAt := Some now\<rparr>"
  have hit: "filter (\<lambda>x. bg_id x = bg_id b \<and> bg_userId x = userId) (budgets db) = [b]"
    using filter_unique_key[OF assms(1,2), of "\<lambda>x. bg_userId x = userId"] assms(3) by simp
  have upd: "map (\<lambda>x. if bg_id x = bg_id b \<and> bg_userId x = userId then ?upd x else x) (budgets db)
             = map (\<lambda>x. if x = b then ?upd b else x) (budgets db)"
    using map_update_unique_key[OF assms(1,2), of "\<lambda>x. bg_userId x = userId" ?upd] assms(3)
    by simp
  show ?thesis
    by (simp add: updateBudget_def cast_optional_def set_or_keep_def Let_def hit upd)
qed

theorem updateBudget_period_only_witness:
  "distinct (map bg_id (budgets ex_store)) \<and> ex_budget \<in> set (budgets ex_store)
   \<and> bg_userId ex_budget = ''u1''
   \<and> updateBudget ex_store 9 ''b1'' ''u1''
        \<lparr>ub_category = None, ub_amount = None, ub_period = Some (Some ''weekly''), ub_currency = None\<rparr> =
      Inr (ex_store\<lparr>budgets := [ex_budget\<lparr>bg_period := Some ''weekly'', bg_updatedAt := Some 9\<rparr>]\<rparr>,
           Some (ex_budget\<lparr>bg_period := Some ''weekly'', bg_updatedAt := Some 9\<rparr>))
   \<and> bg_amount (ex_budget\<lparr>bg_period := Some ''weekly'', bg_updatedAt := Some 9\<rparr>) = 50000
   \<and> bg_category (ex_budget\<lparr>bg_period := Some ''weekly'', bg_updatedAt := Some 9\<rparr>) = C_food"
proof -
  have h1: "distinct (map bg_id (budgets ex_store))" by code_simp
  have h2: "ex_budget \<in> set (budgets ex_store)" by code_simp
  have h3: "bg_userId ex_budget = ''u1''" by code_simp
  have i: "bg_id ex_budget = ''b1''" by code_simp
  have m: "map (\<lambda>x. if x = ex_budget then ex_budget\<lparr>bg_period := Some ''weekly'', bg_updatedAt := Some 9\<rparr> else x)
             (budgets ex_store) = [ex_budget\<lparr>bg_period := Some ''weekly'', bg_updatedAt := Some 9\<rparr>]"
    by (simp add: ex_store_def)
  have a: "bg_amount ex_budget = 50000" "bg_category ex_budget = C_food"
    by (simp_all add: ex_budget_def)
  from updateBudget_period_only[OF h1 h2 h3, of 9 "Some ''weekly''"]
  show ?thesis using h1 h2 h3 by (simp add: i m a)
qed

subsection \<open>Ownership\<close>

lemma select_where_owner_rows:
  "select_where (eq_userId a # cs) rows =
     select_where (eq_userId a # cs) (filter (\<lambda>r. tx_userId r = a) rows)"
  by (auto simp add: select_where_def split: option.splits intro: filter_cong)

lemma getTransactions_owner_rows:
  assumes "filter (\<lambda>r. tx_userId r = a) (transactions db) = filter (\<lambda>r. tx_userId r = a) (transactions db2)"
  shows "getTransactions db a fs = getTransactions db2 a fs"
proof -
  obtain d1 where d1: "push_if (Option.bind fs startDate) gte_date [eq_userId a] = eq_userId a # d1"
    using push_if_owner by blast
  obtain d2 where d2: "push_if (Option.bind fs endDate) lte_date (eq_userId a # d1) = eq_userId a # d2"
    using push_if_owner by blast
  obtain d3 where d3: "push_if (Option.bind fs category) eq_category (eq_userId a # d2) = eq_userId a # d3"
    using push_if_owner by blast
  obtain d4 where d4: "push_if (Option.bind fs type) eq_type (eq_userId a # d3) = eq_userId a # d4"
    using push_if_owner by blast
  have "select_where (eq_userId a # d4) (transactions db) = select_where (eq_userId a # d4) (transactions db2)"
    using assms select_where_owner_rows[of a d4 "transactions db"]
      select_where_owner_rows[of a d4 "transactions db2"] by simp
  then show ?thesis
    by (simp add: getTransactions_def Let_def d1 d2 d3 d4 del: and_conditions.simps)
qed

lemma reads_owner_rows:
  assumes "rows_of_owner a db = rows_of_owner a db2"
  shows "getTransactions db a fs = getTransactions db2 a fs"
    and "getBudgets db a = getBudgets db2 a"
    and "getGoals db a = getGoals db2 a"
    and "getDashboardData db today a = getDashboardData db2 today a"
    and "getExpensesByCategory db a s e = getExpensesByCategory db2 a s e"
    and "getIncomeVsExpenses db today a n = getIncomeVsExpenses db2 today a n"
proof -
  from assms have t: "filter (\<lambda>r. tx_userId r = a) (transactions db) = filter (\<lambda>r. tx_userId r = a) (transactions db2)"
    and b: "filter (\<lambda>b. bg_userId b = a) (budgets db) = filter (\<lambda>b. bg_userId b = a) (budgets db2)"
    and g: "filter (\<lambda>g. gl_userId g = a) (goals db) = filter (\<lambda>g. gl_userId g = a) (goals db2)"
    by (simp_all add: rows_of_owner_def)
  have sel: "select_where (eq_userId a # cs) (transactions db) = select_where (eq_userId a # cs) (transactions db2)" for cs
    using t select_where_owner_rows[of a cs "transactions db"]
      select_where_owner_rows[of a cs "transactions db2"] by simp
  show "getTransactions db a fs = getTransactions db2 a fs"
    using t by (rule getTransactions_owner_rows)
  show "getBudgets db a = getBudgets db2 a"
    using b by (simp add: getBudgets_def)
  show "getGoals db a = getGoals db2 a"
    using g by (simp add: getGoals_def)
  show "getDashboardData db today a = getDashboardData db2 today a"
    unfolding getDashboardData_def sel by (rule refl)
  show "getExpensesByCategory db a s e = getExpensesByCategory db2 a s e"
    unfolding getExpensesByCategory_def sel by (rule refl)
  show "getIncomeVsExpenses db today a n = getIncomeVsExpenses db2 today a n"
    unfolding getIncomeVsExpenses_def sel by (rule refl)
qed

lemma filter_others_map_own:
  assumes "\<And>x. hit x \<Longrightarrow> own x" "\<And>x. hit x \<Longrightarrow> own (upd x)"
  shows "filter (\<lambda>x. \<not> own x) (map (\<lambda>x. if hit x then upd x else x) xs) = filter (\<lambda>x. \<not> own x) xs"
  using assms by (induction xs) auto

lemma filter_others_filter_own:
  assumes "\<And>x. hit x \<Longrightarrow> own x"
  shows "filter (\<lambda>x. \<not> own x) (filter (\<lambda>x. \<not> hit x) xs) = filter (\<lambda>x. \<not> own x) xs"
  using assms by (induction xs) auto

lemma createTransaction_others:
  assumes "createTransaction db new_id now data a = Inr (db', t)"
  shows "tx_userId t = a \<and> rows_of_others a db' = rows_of_others a db"
  using assms
  by (auto simp add: createTransaction_def Let_def rows_of_others_def split: option.splits if_splits)

lemma updateTransaction_others:
  assumes "updateTransaction db now i a u = Inr (db', res)"
  shows "rows_of_others a db' = rows_of_others a db \<and> (\<forall>t. res = Some t \<longrightarrow> tx_userId t = a)"
proof -
  from assms obtain am d where c: "cast_optional numeric_in (u_amount u) = Some am"
      "cast_optional date_in (u_date u) = Some d"
    by (auto simp add: updateTransaction_def split: option.splits)
  let ?hit = "\<lambda>r. tx_id r = i \<and> tx_userId r = a"
  let ?upd = "\<lambda>r. r\<lparr>tx_type := set_or_keep (u_type u) (tx_type r),
                      tx_description := set_or_keep (u_description u) (tx_description r),
                      tx_amount := set_or_keep am (tx_amount r),
                      tx_category := set_or_keep (u_category u) (tx_category r),
                      tx_date := set_or_keep d (tx_date r),
                      tx_currency := set_or_keep (u_currency u) (tx_currency r),
                      tx_updatedAt := Some now\<rparr>"
  from assms c have db': "db' = db\<lparr>transactions := map (\<lambda>r. if ?hit r then ?upd r else r) (transactions db)\<rparr>"
    and res: "res = (case map ?upd (filter ?hit (transactions db)) of [] \<Rightarrow> None | x # _ \<Rightarrow> Some x)"
    by (simp_all add: updateTransaction_def Let_def)
  have "filter (\<lambda>r. \<not> tx_userId r = a) (map (\<lambda>r. if ?hit r then ?upd r else r) (transactions db))
        = filter (\<lambda>r. \<not> tx_userId r = a) (transactions db)"
    by (rule filter_others_map_own) simp_all
  then have o: "rows_of_others a db' = rows_of_others a db"
    by (simp add: db' rows_of_others_def)
  have "tx_userId t = a" if "res = Some t" for t
  proof -
    from that res obtain x xs where x: "filter ?hit (transactions db) = x # xs" "t = ?upd x"
      by (auto split: list.splits)
    from x(1) have "x \<in> set (filter ?hit (transactions db))" by simp
    then have "tx_userId x = a" by simp
    with x(2) show ?thesis by simp
  qed
  with o show ?thesis by blast
qed

lemma deleteTransaction_others:
  assumes "deleteTransaction db i a = (db', ok)"
  shows "rows_of_others a db' = rows_of_others a db"
proof -
  have "filter (\<lambda>r. \<not> tx_userId r = a) (filter (\<lambda>r. \<not> (tx_id r = i \<and> tx_userId r = a)) (transactions db))
        = filter (\<lambda>r. \<not> tx_userId r = a) (transactions db)"
    by (rule filter_others_filter_own) simp
  with assms show ?thesis
    by (auto simp add: deleteTransaction_def Let_def rows_of_others_def)
qed

lemma createBudget_others:
  assumes "createBudget db new_id now data a = Inr (db', b)"
  shows "bg_userId b = a \<and> rows_of_others a db' = rows_of_others a db"
  using assms
  by (auto simp add: createBudget_def Let_def rows_of_others_def split: option.splits if_splits)

lemma updateBudget_others:
  assumes "updateBudget db now i a u = Inr (db', res)"
  shows "rows_of_others a db' = rows_of_others a db \<and> (\<forall>b. res = Some b \<longrightarrow> bg_userId b = a)"
proof -
  from assms obtain am where c: "cast_optional numeric_in (ub_amount u) = Some am"
    by (auto simp add: updateBudget_def split: option.splits)
  let ?hit = "\<lambda>b. bg_id b = i \<and> bg_userId b = a"
  let ?upd = "\<lambda>b. b\<lparr>bg_category := set_or_keep (ub_category u) (bg_category b),
                      bg_amount := set_or_keep am (bg_amount b),
                      bg_period := set_or_keep (ub_period u) (bg_period b),
                      bg_currency := set_or_keep (ub_currency u) (bg_currency b),
                      bg_updatedAt := Some now\<rparr>"
  from assms c have db': "db' = db\<lparr>budgets := map (\<lambda>b. if ?hit b then ?upd b else b) (budgets db)\<rparr>"
    and res: "res = (case map ?upd (filter ?hit (budgets db)) of [] \<Rightarrow> None | x # _ \<Rightarrow> Some x)"
    by (simp_all add: updateBudget_def Let_def)
  have "filter (\<lambda>b. \<not> bg_userId b = a) (map (\<lambda>b. if ?hit b then ?upd b else b) (budgets db))
        = filter (\<lambda>b. \<not> bg_userId b = a) (budgets db)"
    by (rule filter_others_map_own) simp_all
  then have o: "rows_of_others a db' = rows_of_others a db"
    by (simp add: db' rows_of_others_def)
  have "bg_userId t = a" if "res = Some t" for t
  proof -
    from that res obtain x xs where x: "filter ?hit (budgets db) = x # xs" "t = ?upd x"
      by (auto split: list.splits)
    from x(1) have "x \<in> set (filter ?hit (budgets db))" by simp
    then have "bg_userId x = a" by simp
    with x(2) show ?thesis by simp
  qed
  with o show ?thesis by blast
qed

lemma deleteBudget_others:
  assumes "deleteBudget db i a = (db', ok)"
  shows "rows_of_others a db' = rows_of_others a db"
proof -
  have "filter (\<lambda>b. \<not> bg_userId b = a) (filter (\<lambda>b. \<not> (bg_id b = i \<and> bg_userId b = a)) (budgets db))
        = filter (\<lambda>b. \<not> bg_userId b = a) (budgets db)"
    by (rule filter_others_filter_own) simp
  with assms show ?thesis
    by (auto simp add: deleteBudget_def Let_def rows_of_others_def)
qed

lemma createGoal_others:
  assumes "createGoal db new_id now data a = Inr (db', g)"
  shows "gl_userId g = a \<and> rows_of_others a db' = rows_of_others a db"
  using assms
  by (auto simp add: createGoal_def Let_def rows_of_others_def split: option.splits if_splits)

lemma updateGoal_others:
  assumes "updateGoal db now i a u = Inr (db', res)"
  shows "rows_of_others a db' = rows_of_others a db \<and> (\<forall>g. res = Some g \<longrightarrow> gl_userId g = a)"
proof -
  from assms obtain target current td where c:
      "cast_optional numeric_in (ug_targetAmount u) = Some target"
      "cast_nullable numeric_in (ug_currentAmount u) = Some current"
      "cast_nullable date_in (ug_targetDate u) = Some td"
    by (auto simp add: updateGoal_def split: option.splits)
  let ?hit = "\<lambda>g. gl_id g = i \<and> gl_userId g = a"
  let ?upd = "\<lambda>g. g\<lparr>gl_name := set_or_keep (ug_name u) (gl_name g),
                      gl_description := set_or_keep (ug_description u) (gl_description g),
                      gl_targetAmount := set_or_keep target (gl_targetAmount g),
                      gl_currentAmount := set_or_keep current (gl_currentAmount g),
                      gl_targetDate := set_or_keep td (gl_targetDate g),
                      gl_currency := set_or_keep (ug_currency u) (gl_currency g),
                      gl_updatedAt := Some now\<rparr>"
  from assms c have db': "db' = db\<lparr>goals := map (\<lambda>g. if ?hit g then ?upd g else g) (goals db)\<rparr>"
    and res: "res = (case map ?upd (filter ?hit (goals db)) of [] \<Rightarrow> None | x # _ \<Rightarrow> Some x)"
    by (simp_all add: updateGoal_def Let_def)
  have "filter (\<lambda>g. \<not> gl_userId g = a) (map (\<lambda>g. if ?hit g then ?upd g else g) (goals db))
        = filter (\<lambda>g. \<not> gl_userId g = a) (goals db)"
    by (rule filter_others_map_own) simp_all
  then have o: "rows_of_others a db' = rows_of_others a db"
    by (simp add: db' rows_of_others_def)
  have "gl_userId t = a" if "res = Some t" for t
  proof -
    from that res obtain x xs where x: "filter ?hit (goals db) = x # xs" "t = ?upd x"
      by (auto split: list.splits)
    from x(1) have "x \<in> set (filter ?hit (goals db))" by simp
    then have "gl_userId x = a" by simp
    with x(2) show ?thesis by simp
  qed
  with o show ?thesis by blast
qed

lemma deleteGoal_others:
  assumes "deleteGoal db i a = (db', ok)"
  shows "rows_of_others a db' = rows_of_others a db"
proof -
  have "filter (\<lambda>g. \<not> gl_userId g = a) (filter (\<lambda>g. \<not> (gl_id g = i \<and> gl_userId g = a)) (goals db))
        = filter (\<lambda>g. \<not> gl_userId g = a) (goals db)"
    by (rule filter_others_filter_own) simp
  with assms show ?thesis
    by (auto simp add: deleteGoal_def Let_def rows_of_others_def)
qed

lemma map_no_hit: "\<forall>x \<in> set xs. \<not> hit x \<Longrightarrow> map (\<lambda>x. if hit x then upd x else x) xs = xs"
  by (induction xs) auto

lemma updateTransaction_not_owned:
  assumes "\<forall>r \<in> set (transactions db). tx_id r = i \<longrightarrow> tx_userId r \<noteq> a"
  shows "updateTransaction db now i a u =
           (if cast_optional numeric_in (u_amount u) \<noteq> None \<and> cast_optional date_in (u_date u) \<noteq> None
            then Inr (db, None) else Inl DatabaseError)"
proof -
  let ?hit = "\<lambda>r. tx_id r = i \<and> tx_userId r = a"
  from assms have n: "\<forall>r \<in> set (transactions db). \<not> ?hit r" by auto
  then have "filter ?hit (transactions db) = []" by (simp add: filter_empty_conv)
  moreover have "map (\<lambda>r. if ?hit r then upd r else r) (transactions db) = transactions db" for upd
    using n by (rule map_no_hit)
  ultimately show ?thesis
    by (auto simp add: updateTransaction_def Let_def split: option.splits)
qed

lemma updateBudget_not_owned:
  assumes "\<forall>b \<in> set (budgets db). bg_id b = i \<longrightarrow> bg_userId b \<noteq> a"
  shows "updateBudget db now i a u =
           (if cast_optional numeric_in (ub_amount u) \<noteq> None then Inr (db, None) else Inl DatabaseError)"
proof -
  let ?hit = "\<lambda>b. bg_id b = i \<and> bg_userId b = a"
  from assms have n: "\<forall>b \<in> set (budgets db). \<not> ?hit b" by auto
  then have "filter ?hit (budgets db) = []" by (simp add: filter_empty_conv)
  moreover have "map (\<lambda>b. if ?hit b then upd b else b) (budgets db) = budgets db" for upd
    using n by (rule map_no_hit)
  ultimately show ?thesis
    by (auto simp add: updateBudget_def Let_def split: option.splits)
qed

lemma updateGoal_not_owned:
  assumes "\<forall>g \<in> set (goals db). gl_id g = i \<longrightarrow> gl_userId g \<noteq> a"
  shows "updateGoal db now i a u =
           (if cast_optional numeric_in (ug_targetAmount u) \<noteq> None
               \<and> cast_nullable numeric_in (ug_currentAmount u) \<noteq> None
               \<and> cast_nullable date_in (ug_targetDate u) \<noteq> None
            then Inr (db, None) else Inl DatabaseError)"
proof -
  let ?hit = "\<lambda>g. gl_id g = i \<and> gl_userId g = a"
  from assms have n: "\<forall>g \<in> set (goals db). \<not> ?hit g" by auto
  then have "filter ?hit (goals db) = []" by (simp add: filter_empty_conv)
  moreover have "map (\<lambda>g. if ?hit g then upd g else g) (goals db) = goals db" for upd
    using n by (rule map_no_hit)
  ultimately show ?thesis
    by (auto simp add: updateGoal_def Let_def split: option.splits)
qed

text \<open>
  Claim C5. A storage method called with owner \<open>a\<close> neither returns nor changes a row of
  another owner: the listings return rows of \<open>a\<close> only; every read (listings and the three
  analytics) depends on the rows of \<open>a\<close> alone; creating, updating and deleting a
  transaction, a budget or a goal leaves the rows of the other owners as they were, and a
  returned row belongs to \<open>a\<close>. An update of an id that \<open>a\<close> does not own answers the same whether
  the id is absent or is a row of another owner: \<^verbatim>\<open>undefined\<close> (the route's 404) with the
  store unchanged, or the database's rejection of the patch, decided by the patch alone.
\<close>

theorem owner_isolation:
  "(getTransactions db a fs = Inr rows \<longrightarrow> (\<forall>r \<in> set rows. tx_userId r = a))
   \<and> (\<forall>b \<in> set (getBudgets db a). bg_userId b = a)
   \<and> (rows_of_owner a db = rows_of_owner a db2 \<longrightarrow>
         getTransactions db a fs = getTransactions db2 a fs
         \<and> getBudgets db a = getBudgets db2 a
         \<and> getGoals db a = getGoals db2 a
         \<and> getDashboardData db today a = getDashboardData db2 today a
         \<and> getExpensesByCategory db a s e = getExpensesByCategory db2 a s e
         \<and> getIncomeVsExpenses db today a n = getIncomeVsExpenses db2 today a n)
   \<and> (createTransaction db new_id now data a = Inr (db', t) \<longrightarrow>
         tx_userId t = a \<and> rows_of_others a db' = rows_of_others a db)
   \<and> (updateTransaction db now i a u = Inr (db', res) \<longrightarrow>
         rows_of_others a db' = rows_of_others a db \<and> (\<forall>t. res = Some t \<longrightarrow> tx_userId t = a))
   \<and> (deleteTransaction db i a = (db', ok) \<longrightarrow> rows_of_others a db' = rows_of_others a db)
   \<and> (createBudget db new_id now bdata a = Inr (db', b) \<longrightarrow>
         bg_userId b = a \<and> rows_of_others a db' = rows_of_others a db)
   \<and> (updateBudget db now i a bu = Inr (db', bres) \<longrightarrow>
         rows_of_others a db' = rows_of_others a db \<and> (\<forall>b. bres = Some b \<longrightarrow> bg_userId b = a))
   \<and> (deleteBudget db i a = (db', ok) \<longrightarrow> rows_of_others a db' = rows_of_others a db)
   \<and> ((\<forall>r \<in> set (transactions db). tx_id r = i \<longrightarrow> tx_userId r \<noteq> a) \<longrightarrow>
         updateTransaction db now i a u =
           (if cast_optional numeric_in (u_amount u) \<noteq> None
               \<and> cast_optional date_in (u_date u) \<noteq> None
            then Inr (db, None) else Inl DatabaseError))
   \<and> ((\<forall>b \<in> set (budgets db). bg_id b = i \<longrightarrow> bg_userId b \<noteq> a) \<longrightarrow>
         updateBudget db now i a bu =
           (if cast_optional numeric_in (ub_amount bu) \<noteq> None then Inr (db, None)
            else Inl DatabaseError))
   \<and> (\<forall>g \<in> set (getGoals db a). gl_userId g = a)
   \<and> (createGoal db new_id now gdata a = Inr (db', g) \<longrightarrow>
         gl_userId g = a \<and> rows_of_others a db' = rows_of_others a db)
   \<and> (updateGoal db now i a gu = Inr (db', gres) \<longrightarrow>
         rows_of_others a db' = rows_of_others a db \<and> (\<forall>g. gres = Some g \<longrightarrow> gl_userId g = a))
   \<and> (deleteGoal db i a = (db', ok) \<longrightarrow> rows_of_others a db' = rows_of_others a db)
   \<and> ((\<forall>g \<in> set (goals db). gl_id g = i \<longrightarrow> gl_userId g \<noteq> a) \<longrightarrow>
         updateGoal db now i a gu =
           (if cast_optional numeric_in (ug_targetAmount gu) \<noteq> None
               \<and> cast_nullable numeric_in (ug_currentAmount gu) \<noteq> None
               \<and> cast_nullable date_in (ug_targetDate gu) \<noteq> None
            then Inr (db, None) else Inl DatabaseError))"
proof -
  have c1: "getTransactions db a fs = Inr rows \<longrightarrow> (\<forall>r \<in> set rows. tx_userId r = a)"
    using getTransactions_owner by blast
  have c2: "\<forall>b \<in> set (getBudgets db a). bg_userId b = a"
    by (simp add: getBudgets_def)
  have c3: "rows_of_owner a db = rows_of_owner a db2 \<longrightarrow>
         getTransactions db a fs = getTransactions db2 a fs
         \<and> getBudgets db a = getBudgets db2 a
         \<and> getGoals db a = getGoals db2 a
         \<and> getDashboardData db today a = getDashboardData db2 today a
         \<and> getExpensesByCategory db a s e = getExpensesByCategory db2 a s e
         \<and> getIncomeVsExpenses db today a n = getIncomeVsExpenses db2 today a n"
  proof
    assume o: "rows_of_owner a db = rows_of_owner a db2"
    show "getTransactions db a fs = getTransactions db2 a fs
         \<and> getBudgets db a = getBudgets db2 a
         \<and> getGoals db a = getGoals db2 a
         \<and> getDashboardData db today a = getDashboardData db2 today a
         \<and> getExpensesByCategory db a s e = getExpensesByCategory db2 a s e
         \<and> getIncomeVsExpenses db today a n = getIncomeVsExpenses db2 today a n"
      by (intro conjI) (rule reads_owner_rows[OF o])+
  qed
  have c4: "createTransaction db new_id now data a = Inr (db', t) \<longrightarrow>
         tx_userId t = a \<and> rows_of_others a db' = rows_of_others a db"
    using createTransaction_others by blast
  have c5: "updateTransaction db now i a u = Inr (db', res) \<longrightarrow>
         rows_of_others a db' = rows_of_others a db \<and> (\<forall>t. res = Some t \<longrightarrow> tx_userId t = a)"
    using updateTransaction_others by blast
  have c6: "deleteTransaction db i a = (db', ok) \<longrightarrow> rows_of_others a db' = rows_of_others a db"
    using deleteTransaction_others by blast
  have c7: "createBudget db new_id now bdata a = Inr (db', b) \<longrightarrow>
         bg_userId b = a \<and> rows_of_others a db' = rows_of_others a db"
    using createBudget_others by blast
  have c8: "updateBudget db now i a bu = Inr (db', bres) \<longrightarrow>
         rows_of_others a db' = rows_of_others a db \<and> (\<forall>b. bres = Some b \<longrightarrow> bg_userId b = a)"
    using updateBudget_others by blast
  have c9: "deleteBudget db i a = (db', ok) \<longrightarrow> rows_of_others a db' = rows_of_others a db"
    using deleteBudget_others by blast
  have c10: "(\<forall>r \<in> set (transactions db). tx_id r = i \<longrightarrow> tx_userId r \<noteq> a) \<longrightarrow>
         updateTransaction db now i a u =
           (if cast_optional numeric_in (u_amount u) \<noteq> None
               \<and> cast_optional date_in (u_date u) \<noteq> None
            then Inr (db, None) else Inl DatabaseError)"
    using updateTransaction_not_owned by blast
  have c11: "(\<forall>b \<in> set (budgets db). bg_id b = i \<longrightarrow> bg_userId b \<noteq> a) \<longrightarrow>
         updateBudget db now i a bu =
           (if cast_optional numeric_in (ub_amount bu) \<noteq> None then Inr (db, None)
            else Inl DatabaseError)"
    using updateBudget_not_owned by blast
  have c12: "\<forall>g \<in> set (getGoals db a). gl_userId g = a"
    by (simp add: getGoals_def)
  have c13: "createGoal db new_id now gdata a = Inr (db', g) \<longrightarrow>
         gl_userId g = a \<and> rows_of_others a db' = rows_of_others a db"
    using createGoal_others by blast
  have c14: "updateGoal db now i a gu = Inr (db', gres) \<longrightarrow>
         rows_of_others a db' = rows_of_others a db \<and> (\<forall>g. gres = Some g \<longrightarrow> gl_userId g = a)"
    using updateGoal_others by blast
  have c15: "deleteGoal db i a = (db', ok) \<longrightarrow> rows_of_others a db' = rows_of_others a db"
    using deleteGoal_others by blast
  have c16: "(\<forall>g \<in> set (goals db). gl_id g = i \<longrightarrow> gl_userId g \<noteq> a) \<longrightarrow>
         updateGoal db now i a gu =
           (if cast_optional numeric_in (ug_targetAmount gu) \<noteq> None
               \<and> cast_nullable numeric_in (ug_currentAmount gu) \<noteq> None
               \<and> cast_nullable date_in (ug_targetDate gu) \<noteq> None
            then Inr (db, None) else Inl DatabaseError)"
    using updateGoal_not_owned by blast
  show ?thesis
    by (intro conjI) (rule c1 c2 c3 c4 c5 c6 c7 c8 c9 c10 c11 c12 c13 c14 c15 c16)+
qed

theorem owner_isolation_witness:
  "getTransactions ex_store ''u1'' None = Inr [ex_power, ex_tea, ex_salary]
   \<and> tx_userId ex_power = ''u1'' \<and> tx_userId ex_tea = ''u1'' \<and> tx_userId ex_salary = ''u1''
   \<and> tx_id ex_bus = ''t3'' \<and> tx_userId ex_bus = ''u2''
   \<and> updateTransaction ex_store 9 ''t3'' ''u1''
        \<lparr>u_type = None, u_description = Some ''taxi'', u_amount = None, u_category = None,
         u_date = None, u_currency = None\<rparr> = Inr (ex_store, None)
   \<and> updateTransaction ex_store 9 ''t9'' ''u1''
        \<lparr>u_type = None, u_description = Some ''taxi'', u_amount = None, u_category = None,
         u_date = None, u_currency = None\<rparr> = Inr (ex_store, None)
   \<and> rows_of_others ''u1'' (fst (deleteTransaction ex_store ''t2'' ''u1'')) = ([ex_bus], [], [ex_goal])
   \<and> gl_id ex_goal = ''g1'' \<and> gl_userId ex_goal = ''u2''
   \<and> updateGoal ex_store 9 ''g1'' ''u1''
        \<lparr>ug_name = Some ''car'', ug_description = None, ug_targetAmount = None,
         ug_currentAmount = None, ug_targetDate = None, ug_currency = None\<rparr> = Inr (ex_store, None)"
proof -
  let ?u = "\<lparr>u_type = None, u_description = Some ''taxi'', u_amount = None, u_category = None,
         u_date = None, u_currency = None\<rparr>"
  let ?gu = "\<lparr>ug_name = Some ''car'', ug_description = None, ug_targetAmount = None,
         ug_currentAmount = None, ug_targetDate = None, ug_currency = None\<rparr>"
  note t = owner_isolation
  note reads = t[THEN conjunct1]
  note deletes = t[THEN conjunct2, THEN conjunct2, THEN conjunct2, THEN conjunct2, THEN conjunct2,
      THEN conjunct1]
  note not_owned = t[THEN conjunct2, THEN conjunct2, THEN conjunct2, THEN conjunct2, THEN conjunct2,
      THEN conjunct2, THEN conjunct2, THEN conjunct2, THEN conjunct2, THEN conjunct1]
  note goal_not_owned = t[THEN conjunct2, THEN conjunct2, THEN conjunct2, THEN conjunct2,
      THEN conjunct2, THEN conjunct2, THEN conjunct2, THEN conjunct2, THEN conjunct2, THEN conjunct2,
      THEN conjunct2, THEN conjunct2, THEN conjunct2, THEN conjunct2, THEN conjunct2]
  have g: "getTransactions ex_store ''u1'' None = Inr [ex_power, ex_tea, ex_salary]"
    by code_simp
  from reads[THEN mp, OF g]
  have own: "tx_userId ex_power = ''u1'' \<and> tx_userId ex_tea = ''u1'' \<and> tx_userId ex_salary = ''u1''"
    by simp
  have bus: "tx_id ex_bus = ''t3''" "tx_userId ex_bus = ''u2''" by (simp_all add: ex_bus_def)
  have n3: "\<forall>r \<in> set (transactions ex_store). tx_id r = ''t3'' \<longrightarrow> tx_userId r \<noteq> ''u1''"
    by code_simp
  have n9: "\<forall>r \<in> set (transactions ex_store). tx_id r = ''t9'' \<longrightarrow> tx_userId r \<noteq> ''u1''"
    by code_simp
  from not_owned[THEN mp, OF n3, of 9 ?u]
  have u3: "updateTransaction ex_store 9 ''t3'' ''u1'' ?u = Inr (ex_store, None)"
    by (simp add: cast_optional_def)
  from not_owned[THEN mp, OF n9, of 9 ?u]
  have u9: "updateTransaction ex_store 9 ''t9'' ''u1'' ?u = Inr (ex_store, None)"
    by (simp add: cast_optional_def)
  have o: "rows_of_others ''u1'' ex_store = ([ex_bus], [], [ex_goal])" by code_simp
  have "deleteTransaction ex_store ''t2'' ''u1'' =
          (fst (deleteTransaction ex_store ''t2'' ''u1''), snd (deleteTransaction ex_store ''t2'' ''u1''))"
    by simp
  from deletes[THEN mp, OF this] o
  have d: "rows_of_others ''u1'' (fst (deleteTransaction ex_store ''t2'' ''u1'')) = ([ex_bus], [], [ex_goal])"
    by simp
  have gl: "gl_id ex_goal = ''g1''" "gl_userId ex_goal = ''u2''" by (simp_all add: ex_goal_def)
  have ng: "\<forall>g \<in> set (goals ex_store). gl_id g = ''g1'' \<longrightarrow> gl_userId g \<noteq> ''u1''"
    by code_simp
  from goal_not_owned[THEN mp, OF ng, of 9 ?gu]
  have ug: "updateGoal ex_store 9 ''g1'' ''u1'' ?gu = Inr (ex_store, None)"
    by (simp add: cast_optional_def cast_nullable_def)
  from g own bus u3 u9 d gl ug show ?thesis by simp
qed

subsection \<open>Creating a transaction\<close>





subsection \<open>Expenses by category\<close>

lemma map_fst_group_by_sum: "map fst (group_by_sum key rows) = remdups (map key rows)"
  by (simp add: group_by_sum_def comp_def)

lemma group_by_sum_entry:
  assumes "(k, t) \<in> set (group_by_sum key rows)"
  shows "t = Some (sum_list (map tx_amount (filter (\<lambda>r. key r = k) rows)))"
proof -
  from assms have k: "k \<in> key ` set rows" and t: "t = sum_amount (filter (\<lambda>r. key r = k) rows)"
    by (auto simp add: group_by_sum_def)
  from k have "filter (\<lambda>r. key r = k) rows \<noteq> []"
    by (auto simp add: filter_empty_conv)
  with t show ?thesis by (simp add: sum_amount_def)
qed

lemma select_expenses:
  assumes "date_in s = Some d1" "date_in e = Some d2"
  shows "select_where [eq_userId userId, eq_type ''expense'', gte_date s, lte_date e] (transactions db)
           = Inr (expenses_between db userId d1 d2)"
  using assms
  by (auto simp add: select_where_def expenses_between_def transaction_type_in_def intro: filter_cong)

text \<open>
  Claim C7, as stated, fails: a category can appear with a zero sum. With a single expense
  of 0.00 in \<^verbatim>\<open>food\<close>, the result has the entry \<^verbatim>\<open>food\<close> with amount 0.
\<close>

theorem getExpensesByCategory_zero_sum:
  "getExpensesByCategory ex_store_free ''u1'' ''2024-01-01'' ''2024-01-31'' =
     Inr [\<lparr>ca_category = C_food, ca_amount = Fin 0\<rparr>]"
proof -
  have "select_where [eq_userId ''u1'', eq_type ''expense'', gte_date ''2024-01-01'',
                      lte_date ''2024-01-31''] (transactions ex_store_free) = Inr [ex_free]"
    by code_simp
  then show ?thesis
    by (simp add: getExpensesByCategory_def group_by_sum_def sum_amount_def Number_or_0_def
        binary64_def ex_free_def)
qed

text \<open>
  Claim C7, amended. For texts of two dates, \<^verbatim>\<open>getExpensesByCategory\<close> returns one entry per
  category that has at least one expense of the owner dated within the two days
  (inclusive); no category appears twice and a category without such an expense is left
  out; an entry's amount is the number nearest to the exact sum of that category's
  expenses, and it is greater than zero exactly when that sum is (so a category whose
  expenses sum to zero appears with amount 0).
\<close>

theorem getExpensesByCategory_groups:
  assumes "date_in s = Some d1" and "date_in e = Some d2"
  shows "\<exists>res. getExpensesByCategory db userId s e = Inr res
           \<and> distinct (map ca_category res)
           \<and> set (map ca_category res) = tx_category ` set (expenses_between db userId d1 d2)
           \<and> (\<forall>x \<in> set res.
                 ca_amount x = Number_or_0 (Some (category_sum (ca_category x) (expenses_between db userId d1 d2)))
                 \<and> (js_gt (ca_amount x) (Fin 0) \<longleftrightarrow>
                      0 < category_sum (ca_category x) (expenses_between db userId d1 d2)))"
proof -
  let ?sel = "expenses_between db userId d1 d2"
  let ?g = "group_by_sum tx_category ?sel"
  let ?res = "map (\<lambda>row. \<lparr>ca_category = fst row, ca_amount = Number_or_0 (snd row)\<rparr>) ?g"
  have r: "getExpensesByCategory db userId s e = Inr ?res"
    by (simp add: getExpensesByCategory_def select_expenses[OF assms])
  have cats: "map ca_category ?res = remdups (map tx_category ?sel)"
    using map_fst_group_by_sum[of tx_category ?sel] by (simp add: comp_def)
  have d: "distinct (map ca_category ?res)" by (simp only: cats distinct_remdups)
  have st: "set (map ca_category ?res) = tx_category ` set ?sel" by (simp only: cats set_remdups set_map)
  have am: "ca_amount x = Number_or_0 (Some (category_sum (ca_category x) ?sel))
            \<and> (js_gt (ca_amount x) (Fin 0) \<longleftrightarrow> 0 < category_sum (ca_category x) ?sel)"
    if "x \<in> set ?res" for x
  proof -
    from that obtain k t where kt: "(k, t) \<in> set ?g" and x: "x = \<lparr>ca_category = k, ca_amount = Number_or_0 t\<rparr>"
      by auto
    from group_by_sum_entry[OF kt] have "t = Some (category_sum k ?sel)"
      by (simp add: category_sum_def)
    with x show ?thesis by (simp add: Number_or_0_positive_iff)
  qed
  from r d st am show ?thesis by blast
qed

theorem getExpensesByCategory_groups_witness:
  "date_in ''2024-01-01'' = Some (2024, 1, 1) \<and> date_in ''2024-02-29'' = Some (2024, 2, 29)
   \<and> expenses_between ex_store ''u1'' (2024, 1, 1) (2024, 2, 29) = [ex_tea, ex_power]
   \<and> getExpensesByCategory ex_store ''u1'' ''2024-01-01'' ''2024-02-29'' =
       Inr [\<lparr>ca_category = C_food, ca_amount = Number_or_0 (Some 10)\<rparr>,
            \<lparr>ca_category = C_utilities, ca_amount = Number_or_0 (Some 250)\<rparr>]
   \<and> js_gt (Number_or_0 (Some 10)) (Fin 0) \<and> js_gt (Number_or_0 (Some 250)) (Fin 0)"
proof -
  have d1: "date_in ''2024-01-01'' = Some (2024, 1, 1)" by code_simp
  have d2: "date_in ''2024-02-29'' = Some (2024, 2, 29)" by code_simp
  have sel: "expenses_between ex_store ''u1'' (2024, 1, 1) (2024, 2, 29) = [ex_tea, ex_power]"
    by code_simp
  from getExpensesByCategory_groups[OF d1 d2, of ex_store "''u1''"] obtain res where
    r: "getExpensesByCategory ex_store ''u1'' ''2024-01-01'' ''2024-02-29'' = Inr res"
    and a: "\<forall>x \<in> set res.
              ca_amount x = Number_or_0 (Some (category_sum (ca_category x) [ex_tea, ex_power]))
              \<and> (js_gt (ca_amount x) (Fin 0) \<longleftrightarrow> 0 < category_sum (ca_category x) [ex_tea, ex_power])"
    unfolding sel by blast
  have e: "getExpensesByCategory ex_store ''u1'' ''2024-01-01'' ''2024-02-29'' =
       Inr [\<lparr>ca_category = C_food, ca_amount = Number_or_0 (Some 10)\<rparr>,
            \<lparr>ca_category = C_utilities, ca_amount = Number_or_0 (Some 250)\<rparr>]"
    using select_expenses[OF d1 d2, of "''u1''" ex_store]
    by (simp add: getExpensesByCategory_def sel group_by_sum_def sum_amount_def ex_tea_def ex_power_def)
  have c: "category_sum C_food [ex_tea, ex_power] = 10" "category_sum C_utilities [ex_tea, ex_power] = 250"
    by (simp_all add: category_sum_def ex_tea_def ex_power_def)
  from r e have "res = [\<lparr>ca_category = C_food, ca_amount = Number_or_0 (Some 10)\<rparr>,
            \<lparr>ca_category = C_utilities, ca_amount = Number_or_0 (Some 250)\<rparr>]" by simp
  with a c have "js_gt (Number_or_0 (Some 10)) (Fin 0) \<and> js_gt (Number_or_0 (Some 250)) (Fin 0)"
    by simp
  with d1 d2 sel e show ?thesis by simp
qed

subsection \<open>The dashboard\<close>

lemma toISOString_four_digits:
  assumes "valid_date (y, m, d)" "y \<le> 9999"
  shows "toISOString (y, m, d) = pad 4 y @ ''-'' @ pad 2 m @ ''-'' @ pad 2 d"
  using assms by (simp add: toISOString_def valid_date_def)

lemma pad_2_1: "pad 2 1 = ''01''" by code_simp

lemma pad_2_31: "pad 2 31 = ''31''" by code_simp

lemma month_bounds_text:
  assumes "valid_date (y, m, d)" "y \<le> 9999"
  shows "date_in (take 7 (toISOString (y, m, d)) @ ''-01'') = Some (y, m, 1)"
    and "date_in (take 7 (toISOString (y, m, d)) @ ''-31'') =
           (if days_in_month y m = 31 then Some (y, m, 31) else None)"
proof -
  from assms have r: "0 \<le> y" "y < 10000" "0 \<le> m" "m < 100"
    and dm: "1 \<le> days_in_month y m" "days_in_month y m \<le> 31" "1 \<le> y" "1 \<le> m" "m \<le> 12"
    by (auto simp add: valid_date_def days_in_month_def)
  have t: "take 7 (toISOString (y, m, d)) = pad 4 y @ ''-'' @ pad 2 m"
    by (simp add: toISOString_four_digits[OF assms] length_pad)
  have "date_in (take 7 (toISOString (y, m, d)) @ ''-01'') =
          date_in (pad 4 y @ ''-'' @ pad 2 m @ ''-'' @ pad 2 1)"
    by (simp only: t pad_2_1 append_assoc append_Cons append_Nil)
  also have "\<dots> = Some (y, m, 1)"
    using date_in_ymd[of y m 1] r dm by (simp add: valid_date_def)
  finally show "date_in (take 7 (toISOString (y, m, d)) @ ''-01'') = Some (y, m, 1)" .
  have "date_in (take 7 (toISOString (y, m, d)) @ ''-31'') =
          date_in (pad 4 y @ ''-'' @ pad 2 m @ ''-'' @ pad 2 31)"
    by (simp only: t pad_2_31 append_assoc append_Cons append_Nil)
  also have "\<dots> = (if days_in_month y m = 31 then Some (y, m, 31) else None)"
    using date_in_ymd[of y m 31] r dm by (auto simp add: valid_date_def)
  finally show "date_in (take 7 (toISOString (y, m, d)) @ ''-31'') =
           (if days_in_month y m = 31 then Some (y, m, 31) else None)" .
qed

lemma in_month_bounds:
  assumes "valid_date dt"
  shows "((y, m, 1) \<le> dt \<and> dt \<le> (y, m, 31)) \<longleftrightarrow> in_month (y, m, d) dt"
proof -
  obtain y' m' d' where dt: "dt = (y', m', d')" by (cases dt) auto
  from assms have "1 \<le> d'" "d' \<le> 31"
    by (auto simp add: dt valid_date_def days_in_month_def split: if_splits)
  then show ?thesis by (auto simp add: dt in_month_def)
qed

lemma select_month:
  assumes "valid_date (y, m, d)" "y \<le> 9999" "days_in_month y m = 31"
    and "\<forall>r \<in> set (transactions db). valid_date (tx_date r)"
    and "transaction_type_in ty = Some k"
  shows "select_where [eq_userId userId, eq_type ty,
                       gte_date (take 7 (toISOString (y, m, d)) @ ''-01''),
                       lte_date (take 7 (toISOString (y, m, d)) @ ''-31'')] (transactions db) =
         Inr (month_rows db userId k (y, m, d))"
proof -
  have "filter (\<lambda>r. tx_userId r = userId \<and> tx_type r = k \<and> (y, m, 1) \<le> tx_date r \<and> tx_date r \<le> (y, m, 31) \<and> True)
          (transactions db) = month_rows db userId k (y, m, d)"
    unfolding month_rows_def
    by (rule filter_cong) (use assms(4) in_month_bounds in auto)
  then show ?thesis
    using assms(3,5) by (simp add: select_where_def month_bounds_text[OF assms(1,2)])
qed

text \<open>
  Claim C2. The dashboard's month window, for a day \<open>today\<close> with a four-digit year and a
  table whose dates are calendar dates. In a month of 31 days, \<^verbatim>\<open>monthlyIncome\<close> and
  \<^verbatim>\<open>monthlyExpenses\<close> are the numbers of the sums over exactly the owner's income and expense
  rows dated in the calendar month of \<open>today\<close>. In a month with fewer than 31 days the
  upper bound \<^verbatim>\<open>YYYY-MM-31\<close> is not a date: the database rejects it and the method throws,
  whatever the table holds, so no day of such a month is summed.
\<close>

theorem getDashboardData_month_window:
  assumes "valid_date today" and "fst today \<le> 9999"
    and "\<forall>r \<in> set (transactions db). valid_date (tx_date r)"
  shows "(days_in_month (fst today) (fst (snd today)) < 31 \<longrightarrow>
            getDashboardData db today userId = Inl DatabaseError)
         \<and> (days_in_month (fst today) (fst (snd today)) = 31 \<longrightarrow>
              (\<exists>s. getDashboardData db today userId = Inr s
                 \<and> monthlyIncome s = Number_or_0 (sum_amount (month_rows db userId T_income today))
                 \<and> monthlyExpenses s = Number_or_0 (sum_amount (month_rows db userId T_expense today))))"
proof -
  obtain y m d where today: "today = (y, m, d)" by (cases today) auto
  from assms(1,2) have v: "valid_date (y, m, d)" "y \<le> 9999" by (simp_all add: today)
  have short: "getDashboardData db today userId = Inl DatabaseError" if "days_in_month y m < 31"
    using that
    by (simp add: getDashboardData_def today select_where_def month_bounds_text[OF v]
        transaction_type_in_def)
  have full: "\<exists>s. getDashboardData db today userId = Inr s
                 \<and> monthlyIncome s = Number_or_0 (sum_amount (month_rows db userId T_income today))
                 \<and> monthlyExpenses s = Number_or_0 (sum_amount (month_rows db userId T_expense today))"
    if "days_in_month y m = 31"
  proof -
    have i: "transaction_type_in ''income'' = Some T_income"
      and e: "transaction_type_in ''expense'' = Some T_expense"
      by (simp_all add: transaction_type_in_def)
    show ?thesis
      unfolding getDashboardData_def today Let_def
        select_month[OF v that assms(3) i] select_month[OF v that assms(3) e]
      by simp
  qed
  from short full show ?thesis by (simp add: today)
qed

theorem getDashboardData_month_window_witness:
  "valid_date (2024, 4, 15) \<and> days_in_month 2024 4 < 31
   \<and> month_rows ex_store_april ''u1'' T_income (2024, 4, 15) = [ex_april]
   \<and> getDashboardData ex_store_april (2024, 4, 15) ''u1'' = Inl DatabaseError"
proof -
  have v: "valid_date (2024, 4, 15)" by code_simp
  have y: "fst (2024 :: int, 4 :: int, 15 :: int) \<le> 9999" by simp
  have a: "\<forall>r \<in> set (transactions ex_store_april). valid_date (tx_date r)" by code_simp
  have s: "days_in_month 2024 4 < 31" by code_simp
  have r: "month_rows ex_store_april ''u1'' T_income (2024, 4, 15) = [ex_april]" by code_simp
  from getDashboardData_month_window[OF v y a, of "''u1''"] s
  have "getDashboardData ex_store_april (2024, 4, 15) ''u1'' = Inl DatabaseError" by simp
  with v s r show ?thesis by simp
qed

lemma ex_store_january:
  "getDashboardData ex_store (2024, 1, 30) ''u1'' =
     Inr \<lparr>totalBalance = Fin (4953959590107545 / 2 ^ 52),
          monthlyIncome = Fin (5404319552844595 / 2 ^ 52),
          monthlyExpenses = Fin (3602879701896397 / 2 ^ 55),
          savingsRate = Fin (3225234108142933 / 2 ^ 45)\<rparr>"
proof -
  have m: "take 7 (toISOString (2024, 1, 30)) = ''2024-01''" by code_simp
  have i: "select_where [eq_userId ''u1'', eq_type ''income'', gte_date ''2024-01-01'',
                         lte_date ''2024-01-31''] (transactions ex_store) = Inr [ex_salary]"
    by code_simp
  have e: "select_where [eq_userId ''u1'', eq_type ''expense'', gte_date ''2024-01-01'',
                         lte_date ''2024-01-31''] (transactions ex_store) = Inr [ex_tea]"
    by code_simp
  have ni: "Number_or_0 (sum_amount [ex_salary]) = Fin (5404319552844595 / 2 ^ 52)"
    by (simp add: sum_amount_def ex_salary_def binary64_numeral)
  have ne: "Number_or_0 (sum_amount [ex_tea]) = Fin (3602879701896397 / 2 ^ 55)"
    by (simp add: sum_amount_def ex_tea_def binary64_numeral)
  have b: "js_minus (Fin (5404319552844595 / 2 ^ 52)) (Fin (3602879701896397 / 2 ^ 55)) =
             Fin (4953959590107545 / 2 ^ 52)"
    by (simp add: binary64_numeral)
  have q: "js_divide (Fin (4953959590107545 / 2 ^ 52)) (Fin (5404319552844595 / 2 ^ 52)) =
             Fin (8256599316845909 / 2 ^ 53)"
    by (simp add: binary64_numeral)
  have r: "js_times (Fin (8256599316845909 / 2 ^ 53)) (Fin 100) = Fin (3225234108142933 / 2 ^ 45)"
    by (simp add: binary64_numeral)
  have g: "js_gt (Fin (5404319552844595 / 2 ^ 52)) (Fin 0)" by simp
  show ?thesis
    unfolding getDashboardData_def Let_def m
    by (simp only: append.simps i e ni ne b q r g sum.case if_True)
qed

text \<open>
  Claim C1, as stated, fails: the balance is not decimal-exact. With an income of 1.20 and
  an expense of 0.10 in January 2024 the dashboard returns \<^verbatim>\<open>monthlyIncome\<close> 1.2,
  \<^verbatim>\<open>monthlyExpenses\<close> 0.1 and \<^verbatim>\<open>totalBalance\<close> 1.0999999999999999: neither the exact
  difference of the two returned numbers, nor the number nearest to the decimal 1.10
  (which is 1.1).
\<close>

theorem getDashboardData_rounding_drift:
  "getDashboardData ex_store (2024, 1, 30) ''u1'' =
     Inr \<lparr>totalBalance = Fin (4953959590107545 / 2 ^ 52),
          monthlyIncome = Fin (5404319552844595 / 2 ^ 52),
          monthlyExpenses = Fin (3602879701896397 / 2 ^ 55),
          savingsRate = Fin (3225234108142933 / 2 ^ 45)\<rparr>
   \<and> (4953959590107545 / 2 ^ 52 :: rat) \<noteq> 5404319552844595 / 2 ^ 52 - 3602879701896397 / 2 ^ 55
   \<and> Number_or_0 (Some (120 - 10)) = Fin (2476979795053773 / 2 ^ 51)
   \<and> (4953959590107545 / 2 ^ 52 :: rat) \<noteq> 2476979795053773 / 2 ^ 51"
proof -
  have "Number_or_0 (Some (120 - 10)) = Fin (2476979795053773 / 2 ^ 51)"
    by (simp add: binary64_numeral)
  moreover have "(4953959590107545 / 2 ^ 52 :: rat) \<noteq> 5404319552844595 / 2 ^ 52 - 3602879701896397 / 2 ^ 55"
    by simp
  moreover have "(4953959590107545 / 2 ^ 52 :: rat) \<noteq> 2476979795053773 / 2 ^ 51"
    by simp
  ultimately show ?thesis using ex_store_january by simp
qed

text \<open>
  Claim C1, amended. Whenever the dashboard returns a summary, \<^verbatim>\<open>totalBalance\<close> is the
  binary64 difference \<^verbatim>\<open>monthlyIncome - monthlyExpenses\<close> of the two returned numbers (rounded
  to nearest, not decimal-exact), and \<^verbatim>\<open>savingsRate\<close> is the binary64 value of
  \<^verbatim>\<open>((monthlyIncome - monthlyExpenses) / monthlyIncome) * 100\<close> when \<^verbatim>\<open>monthlyIncome > 0\<close> and 0
  otherwise; in particular it is 0 when \<^verbatim>\<open>monthlyIncome\<close> is 0, whatever the expenses, and
  the division is only performed with a divisor other than 0.
\<close>

theorem getDashboardData_derived_fields:
  assumes "getDashboardData db today userId = Inr s"
  shows "totalBalance s = js_minus (monthlyIncome s) (monthlyExpenses s)
         \<and> savingsRate s =
             (if js_gt (monthlyIncome s) (Fin 0)
              then js_times (js_divide (js_minus (monthlyIncome s) (monthlyExpenses s)) (monthlyIncome s))
                     (Fin 100)
              else Fin 0)
         \<and> (monthlyIncome s = Fin 0 \<longrightarrow> savingsRate s = Fin 0)
         \<and> (js_gt (monthlyIncome s) (Fin 0) \<longrightarrow> monthlyIncome s \<noteq> Fin 0)"
  using assms
  by (auto simp add: getDashboardData_def Let_def split: sum.splits)

theorem getDashboardData_derived_fields_witness:
  "getDashboardData ex_store (2024, 1, 30) ''u1'' =
     Inr \<lparr>totalBalance = Fin (4953959590107545 / 2 ^ 52),
          monthlyIncome = Fin (5404319552844595 / 2 ^ 52),
          monthlyExpenses = Fin (3602879701896397 / 2 ^ 55),
          savingsRate = Fin (3225234108142933 / 2 ^ 45)\<rparr>
   \<and> Fin (4953959590107545 / 2 ^ 52) =
       js_minus (Fin (5404319552844595 / 2 ^ 52)) (Fin (3602879701896397 / 2 ^ 55))
   \<and> Fin (3225234108142933 / 2 ^ 45) =
       js_times (js_divide (js_minus (Fin (5404319552844595 / 2 ^ 52)) (Fin (3602879701896397 / 2 ^ 55)))
                   (Fin (5404319552844595 / 2 ^ 52))) (Fin 100)
   \<and> getDashboardData ex_store_free (2024, 1, 30) ''u1'' =
       Inr \<lparr>totalBalance = Fin 0, monthlyIncome = Fin 0, monthlyExpenses = Fin 0, savingsRate = Fin 0\<rparr>"
proof -
  note j = ex_store_january
  have z: "getDashboardData ex_store_free (2024, 1, 30) ''u1'' =
       Inr \<lparr>totalBalance = Fin 0, monthlyIncome = Fin 0, monthlyExpenses = Fin 0, savingsRate = Fin 0\<rparr>"
  proof -
    have m: "take 7 (toISOString (2024, 1, 30)) = ''2024-01''" by code_simp
    have i: "select_where [eq_userId ''u1'', eq_type ''income'', gte_date ''2024-01-01'',
                         lte_date ''2024-01-31''] (transactions ex_store_free) = Inr []"
      by code_simp
    have e: "select_where [eq_userId ''u1'', eq_type ''expense'', gte_date ''2024-01-01'',
                         lte_date ''2024-01-31''] (transactions ex_store_free) = Inr [ex_free]"
      by code_simp
    have n: "Number_or_0 (sum_amount []) = Fin 0" "Number_or_0 (sum_amount [ex_free]) = Fin 0"
      by (simp_all add: sum_amount_def Number_or_0_def binary64_def ex_free_def)
    have b: "js_minus (Fin 0) (Fin 0) = Fin 0" by (simp add: binary64_def)
    have g: "\<not> js_gt (Fin 0) (Fin 0)" by simp
    show ?thesis
      unfolding getDashboardData_def Let_def m
      by (simp only: append.simps i e n b g sum.case if_False)
  qed
  from getDashboardData_derived_fields[OF j] getDashboardData_derived_fields[OF z] j z
  show ?thesis by simp
qed

subsection \<open>Income against expenses by month\<close>



subsubsection \<open>The loop that fills monthlyData\<close>



















end
